theory Spec2Isabelle
  imports Complex_Main
begin

section \<open>Python values used by the connection manager\<close>

text \<open>
  The module \<open>aiosmtplib/connection.py\<close> defines the class \<open>SMTPConnection\<close>. Its
  methods are embedded as functions over an explicit record of the instance's fields.
  A keyword argument whose default is the sentinel \<open>_default\<close> has type \<open>'a arg\<close>:
  \<open>Default\<close> is the sentinel (the argument was not passed), \<open>Given v\<close> a value that
  was passed (also \<open>Given None\<close>).
\<close>

datatype 'a arg = Default | Given 'a

text \<open>
  Exceptions. A constructor stands for the class an exception was created from, its
  string for \<open>str(exc)\<close>. \<open>SMTPConnectError\<close> and \<open>SMTPConnectTimeoutError\<close>
  carry their message and the cause given by \<open>raise ... from exc\<close>.
  \<open>asyncio_TimeoutError\<close> is what \<open>asyncio.wait_for\<close> raises at its deadline
  (\<open>str\<close> of it is empty). \<open>OSError\<close> is an \<open>OSError\<close> that is not an
  \<open>asyncio.TimeoutError\<close>. \<open>CancelledError\<close> is what an \<open>await\<close> raises when
  the running task is cancelled: a \<open>BaseException\<close> that is not an \<open>Exception\<close>
  (Python 3.8 and later). \<open>OtherException\<close> is an \<open>Exception\<close> of none of the
  other classes.
\<close>

datatype exn =
    ValueError string
  | RuntimeError string
  | OSError string
  | asyncio_TimeoutError
  | SMTPServerDisconnected string
  | SMTPTimeoutError string
  | SMTPConnectError string "exn option"
  | SMTPConnectTimeoutError string "exn option"
  | CancelledError
  | OtherException string

text \<open>The classes that the \<open>except\<close> clauses of the module test an exception against.\<close>

datatype exn_class =
    Exception_class
  | OSError_class
  | asyncio_TimeoutError_class
  | SMTPServerDisconnected_class
  | SMTPTimeoutError_class

fun py_str_exn :: "exn \<Rightarrow> string" where
  "py_str_exn (ValueError m) = m"
| "py_str_exn (RuntimeError m) = m"
| "py_str_exn (OSError m) = m"
| "py_str_exn asyncio_TimeoutError = []"
| "py_str_exn (SMTPServerDisconnected m) = m"
| "py_str_exn (SMTPTimeoutError m) = m"
| "py_str_exn (SMTPConnectError m c) = m"
| "py_str_exn (SMTPConnectTimeoutError m c) = m"
| "py_str_exn CancelledError = []"
| "py_str_exn (OtherException m) = m"

text \<open>\<open>str\<close> of an integer (decimal digits) and of an optional value, as an f-string renders them.\<close>

fun nat_digits :: "nat \<Rightarrow> string" where
  "nat_digits n =
     (if n < 10 then [''0123456789'' ! n]
      else nat_digits (n div 10) @ [''0123456789'' ! (n mod 10)])"

declare nat_digits.simps [simp del]

definition py_str_int :: "int \<Rightarrow> string" where
  "py_str_int i = (if i < 0 then ''-'' @ nat_digits (nat (- i)) else nat_digits (nat i))"

definition py_str_opt_str :: "string option \<Rightarrow> string" where
  "py_str_opt_str v = (case v of None \<Rightarrow> ''None'' | Some x \<Rightarrow> x)"

definition py_str_opt_int :: "int option \<Rightarrow> string" where
  "py_str_opt_int v = (case v of None \<Rightarrow> ''None'' | Some i \<Rightarrow> py_str_int i)"

text \<open>
  The values a socket path may take (\<open>SocketPathType\<close>: \<open>str\<close>, \<open>bytes\<close> or a
  path-like object) and the two shapes the code accepts for \<open>source_address\<close> (a
  \<open>(host, port)\<close> tuple, or the deprecated plain string).
\<close>

datatype socket_path = PathStr string | PathBytes string | PathLike string

datatype source_address = AddrTuple string int | AddrStr string

datatype socket = Socket nat

datatype verify_mode = CERT_NONE | CERT_REQUIRED

record SSLContext =
  check_hostname :: bool
  verify_mode :: verify_mode
  verify_locations :: "string list"
  cert_chains :: "(string \<times> string option) list"

record Transport =
  transport_id :: nat
  is_closing :: bool
  extra_info :: "(string \<times> string) list"

datatype SMTPProtocol = SMTPProtocol (protocol_loop: nat)

datatype Lock = Lock (locked: bool)

record Future =
  cancelled :: bool
  exception :: "exn option"

record SMTPResponse =
  code :: int
  message :: string

text \<open>Truth values of Python objects, as \<open>if x\<close>, \<open>x and y\<close> and \<open>any([...])\<close> read them.\<close>

definition truthy_str :: "string option \<Rightarrow> bool" where
  "truthy_str v = (case v of None \<Rightarrow> False | Some x \<Rightarrow> x \<noteq> [])"

definition truthy_int :: "int option \<Rightarrow> bool" where
  "truthy_int v = (case v of None \<Rightarrow> False | Some i \<Rightarrow> i \<noteq> 0)"

definition truthy_bool :: "bool option \<Rightarrow> bool" where
  "truthy_bool v = (case v of None \<Rightarrow> False | Some b \<Rightarrow> b)"

definition truthy_socket_path :: "socket_path option \<Rightarrow> bool" where
  "truthy_socket_path v =
     (case v of None \<Rightarrow> False
      | Some (PathStr x) \<Rightarrow> x \<noteq> []
      | Some (PathBytes x) \<Rightarrow> x \<noteq> []
      | Some (PathLike x) \<Rightarrow> True)"

definition truthy_source_address :: "source_address option \<Rightarrow> bool" where
  "truthy_source_address v =
     (case v of None \<Rightarrow> False
      | Some (AddrTuple h p) \<Rightarrow> True
      | Some (AddrStr x) \<Rightarrow> x \<noteq> [])"

definition contains_newline :: "string \<Rightarrow> bool" where
  "contains_newline x = (CHR 0x0D \<in> set x \<or> CHR 0x0A \<in> set x)"

section \<open>Constants\<close>

definition SMTP_PORT :: int where "SMTP_PORT = 25"
definition SMTP_TLS_PORT :: int where "SMTP_TLS_PORT = 465"
definition SMTP_STARTTLS_PORT :: int where "SMTP_STARTTLS_PORT = 587"
definition DEFAULT_TIMEOUT :: real where "DEFAULT_TIMEOUT = 60"

text \<open>
  Modelled from the spec: the enumeration \<open>SMTPStatus\<close> of \<open>aiosmtplib/typing.py\<close>
  is not among the sources. The spec gives "service ready" as 220 and "service not
  available" as 421.
\<close>

definition SMTPStatus_ready :: int where "SMTPStatus_ready = 220"
definition SMTPStatus_domain_unavailable :: int where "SMTPStatus_domain_unavailable = 421"

section \<open>The instance and its collaborators\<close>

text \<open>
  The fields of an \<open>SMTPConnection\<close>, under the source's names (without the leading
  underscore of \<open>_login_username\<close>, \<open>_login_password\<close>, \<open>_local_hostname\<close>,
  \<open>_start_tls_on_connect\<close> and \<open>_connect_lock\<close>). \<open>closed_transports\<close> is not a
  field of the class: it records, in order, the transports on which \<open>close()\<close> was called.
\<close>

record SMTPConnection =
  protocol :: "SMTPProtocol option"
  transport :: "Transport option"
  hostname :: "string option"
  port :: "int option"
  login_username :: "string option"
  login_password :: "string option"
  local_hostname :: "string option"
  timeout :: "real option"
  use_tls :: bool
  start_tls_on_connect :: "bool option"
  validate_certs :: bool
  client_cert :: "string option"
  client_key :: "string option"
  tls_context :: "SSLContext option"
  cert_bundle :: "string option"
  socket_path :: "socket_path option"
  sock :: "socket option"
  source_address :: "source_address option"
  loop :: "nat option"
  connect_lock :: "Lock option"
  closed_transports :: "Transport list"

text \<open>The keyword arguments of \<open>connect\<close> and \<open>_update_settings_from_kwargs\<close>.
  \<open>use_tls\<close> and \<open>validate_certs\<close> default to \<open>None\<close>, the others to \<open>_default\<close>.\<close>

record connect_kwargs =
  kw_hostname :: "string option arg"
  kw_port :: "int option arg"
  kw_username :: "string option arg"
  kw_password :: "string option arg"
  kw_local_hostname :: "string option arg"
  kw_source_address :: "source_address option arg"
  kw_timeout :: "real option arg"
  kw_use_tls :: "bool option"
  kw_start_tls :: "bool option arg"
  kw_validate_certs :: "bool option"
  kw_client_cert :: "string option arg"
  kw_client_key :: "string option arg"
  kw_tls_context :: "SSLContext option arg"
  kw_cert_bundle :: "string option arg"
  kw_socket_path :: "socket_path option arg"
  kw_sock :: "socket option arg"

definition no_kwargs :: connect_kwargs where
  "no_kwargs =
     \<lparr>kw_hostname = Default, kw_port = Default, kw_username = Default,
      kw_password = Default, kw_local_hostname = Default, kw_source_address = Default,
      kw_timeout = Default, kw_use_tls = None, kw_start_tls = Default,
      kw_validate_certs = None, kw_client_cert = Default, kw_client_key = Default,
      kw_tls_context = Default, kw_cert_bundle = Default, kw_socket_path = Default,
      kw_sock = Default\<rparr>"

text \<open>The arguments of \<open>__init__\<close>, and the values its signature gives to those not passed.\<close>

record init_args =
  i_hostname :: "string option"
  i_port :: "int option"
  i_username :: "string option"
  i_password :: "string option"
  i_local_hostname :: "string option"
  i_source_address :: "source_address option"
  i_timeout :: "real option"
  i_use_tls :: bool
  i_start_tls :: "bool option"
  i_validate_certs :: bool
  i_client_cert :: "string option"
  i_client_key :: "string option"
  i_tls_context :: "SSLContext option"
  i_cert_bundle :: "string option"
  i_socket_path :: "socket_path option"
  i_sock :: "socket option"

definition init_defaults :: init_args where
  "init_defaults =
     \<lparr>i_hostname = Some ''localhost'', i_port = None, i_username = None,
      i_password = None, i_local_hostname = None, i_source_address = None,
      i_timeout = Some DEFAULT_TIMEOUT, i_use_tls = False, i_start_tls = None,
      i_validate_certs = True, i_client_cert = None, i_client_key = None,
      i_tls_context = None, i_cert_bundle = None, i_socket_path = None,
      i_sock = None\<rparr>"

text \<open>
  The three calls that open a transport, with the arguments the code passes, and the
  collaborators of the class: the event loop, the \<open>ssl\<close> module and the protocol
  engine (\<open>aiosmtplib/protocol.py\<close>, \<open>aiosmtplib/response.py\<close>), none of which is
  among the sources. Each is a parameter: a function from the call's arguments to
  the exception it raises (\<open>Inl\<close>) or the value it returns (\<open>Inr\<close>).

  Two more parameters stand for what the module leaves to its surroundings.
  \<open>derives_from exc c\<close> says whether the class of \<open>exc\<close> is a subclass of \<open>c\<close>
  where neither the module nor Python's builtin classes settle it: for
  \<open>asyncio.TimeoutError\<close> (the builtin \<open>TimeoutError\<close>, a subclass of \<open>OSError\<close>,
  from Python 3.11; a class apart before) and for the exception classes of
  \<open>aiosmtplib/errors.py\<close>, which is not among the sources. \<open>lock_wait s\<close> is what
  becomes of a call suspended at \<open>await self._connect_lock.acquire()\<close> on a held
  lock, other tasks running meanwhile: the lock is released and the call goes on, the
  instance by then in the state given (\<open>Acquired\<close>); or the task is cancelled while
  it waits (\<open>Cancelled\<close>, with the state at that moment); or the lock is never
  released (\<open>Never\<close>).
\<close>

datatype acquired = Acquired SMTPConnection | Cancelled SMTPConnection | Never

datatype connect_coro =
    create_connection_sock socket "SSLContext option" "real option"
  | create_unix_connection socket_path "SSLContext option" "real option"
  | create_connection_host string int "SSLContext option" "real option" "source_address option"

record env =
  get_running_loop :: nat
  load_verify_locations :: "string \<Rightarrow> exn option"
  load_cert_chain :: "string \<Rightarrow> string option \<Rightarrow> exn option"
  wait_for :: "connect_coro \<Rightarrow> real option \<Rightarrow> exn + Transport"
  read_response :: "SMTPProtocol \<Rightarrow> real option \<Rightarrow> exn + SMTPResponse"
  protocol_execute_command :: "SMTPProtocol \<Rightarrow> string list \<Rightarrow> real option \<Rightarrow> exn + SMTPResponse"
  str_response :: "SMTPResponse \<Rightarrow> string"
  derives_from :: "exn \<Rightarrow> exn_class \<Rightarrow> bool"
  lock_wait :: "SMTPConnection \<Rightarrow> acquired"

text \<open>
  \<open>isinstance(exc, c)\<close>, as an \<open>except c\<close> clause tests it: by the class the
  exception was created from, by Python's builtin hierarchy, and by \<open>derives_from\<close>
  for the rest.
\<close>

definition isinstance :: "env \<Rightarrow> exn \<Rightarrow> exn_class \<Rightarrow> bool" where
  "isinstance e exc c =
     (case exc of
        CancelledError \<Rightarrow> False
      | ValueError m \<Rightarrow> c = Exception_class
      | RuntimeError m \<Rightarrow> c = Exception_class
      | OtherException m \<Rightarrow> c = Exception_class
      | OSError m \<Rightarrow> c = Exception_class \<or> c = OSError_class
      | asyncio_TimeoutError \<Rightarrow>
          c = Exception_class \<or> c = asyncio_TimeoutError_class \<or> derives_from e exc c
      | SMTPServerDisconnected m \<Rightarrow>
          c = Exception_class \<or> c = SMTPServerDisconnected_class \<or> derives_from e exc c
      | SMTPTimeoutError m \<Rightarrow>
          c = Exception_class \<or> c = SMTPTimeoutError_class \<or> derives_from e exc c
      | SMTPConnectError m x \<Rightarrow> c = Exception_class \<or> derives_from e exc c
      | SMTPConnectTimeoutError m x \<Rightarrow> c = Exception_class \<or> derives_from e exc c)"

text \<open>
  What a coroutine does when awaited: it returns, it raises, or it stays suspended for
  ever (\<open>Blocked\<close>) at \<open>await self._connect_lock.acquire()\<close>, the lock never
  being released.
\<close>

datatype 'a outcome = Returned 'a | Raised exn | Blocked

section \<open>Configuration: merge and validation\<close>

text \<open>
  \<open>_update_settings_from_kwargs\<close>: one conditional assignment after the other, in the
  source's order. A \<open>source_address\<close> that is a string is stored as the local
  hostname (the deprecated spelling, with a warning), after \<open>local_hostname\<close> itself.
\<close>

definition update_settings_from_kwargs :: "connect_kwargs \<Rightarrow> SMTPConnection \<Rightarrow> SMTPConnection" where
  "update_settings_from_kwargs kw s0 =
     (let s = (case kw_hostname kw of Default \<Rightarrow> s0 | Given v \<Rightarrow> s0\<lparr>hostname := v\<rparr>);
          s = (case kw_use_tls kw of None \<Rightarrow> s | Some v \<Rightarrow> s\<lparr>use_tls := v\<rparr>);
          s = (case kw_start_tls kw of Default \<Rightarrow> s | Given v \<Rightarrow> s\<lparr>start_tls_on_connect := v\<rparr>);
          s = (case kw_validate_certs kw of None \<Rightarrow> s | Some v \<Rightarrow> s\<lparr>validate_certs := v\<rparr>);
          s = (case kw_port kw of Default \<Rightarrow> s | Given v \<Rightarrow> s\<lparr>port := v\<rparr>);
          s = (case kw_username kw of Default \<Rightarrow> s | Given v \<Rightarrow> s\<lparr>login_username := v\<rparr>);
          s = (case kw_password kw of Default \<Rightarrow> s | Given v \<Rightarrow> s\<lparr>login_password := v\<rparr>);
          s = (case kw_timeout kw of Default \<Rightarrow> s | Given v \<Rightarrow> s\<lparr>timeout := v\<rparr>);
          s = (case kw_local_hostname kw of Default \<Rightarrow> s | Given v \<Rightarrow> s\<lparr>local_hostname := v\<rparr>);
          s = (case kw_source_address kw of
                 Default \<Rightarrow> s
               | Given (Some (AddrStr x)) \<Rightarrow> s\<lparr>local_hostname := Some x\<rparr>
               | Given v \<Rightarrow> s\<lparr>source_address := v\<rparr>);
          s = (case kw_client_cert kw of Default \<Rightarrow> s | Given v \<Rightarrow> s\<lparr>client_cert := v\<rparr>);
          s = (case kw_client_key kw of Default \<Rightarrow> s | Given v \<Rightarrow> s\<lparr>client_key := v\<rparr>);
          s = (case kw_tls_context kw of Default \<Rightarrow> s | Given v \<Rightarrow> s\<lparr>tls_context := v\<rparr>);
          s = (case kw_cert_bundle kw of Default \<Rightarrow> s | Given v \<Rightarrow> s\<lparr>cert_bundle := v\<rparr>);
          s = (case kw_socket_path kw of Default \<Rightarrow> s | Given v \<Rightarrow> s\<lparr>socket_path := v\<rparr>);
          s = (case kw_sock kw of Default \<Rightarrow> s | Given v \<Rightarrow> s\<lparr>sock := v\<rparr>)
      in s)"

text \<open>\<open>_validate_config\<close>: the first check that fails raises its \<open>ValueError\<close>.\<close>

definition validate_config :: "SMTPConnection \<Rightarrow> exn + unit" where
  "validate_config s =
     (if truthy_bool (start_tls_on_connect s) \<and> use_tls s then
        Inl (ValueError ''The start_tls and use_tls options are not compatible.'')
      else if tls_context s \<noteq> None \<and> client_cert s \<noteq> None then
        Inl (ValueError ''Either a TLS context or a certificate/key must be provided'')
      else if sock s \<noteq> None \<and>
              (truthy_str (hostname s) \<or> truthy_int (port s) \<or> truthy_socket_path (socket_path s)) then
        Inl (ValueError ''The socket option is not compatible with hostname, port or socket_path'')
      else if socket_path s \<noteq> None \<and> (truthy_str (hostname s) \<or> truthy_int (port s)) then
        Inl (ValueError ''The socket_path option is not compatible with hostname/port'')
      else if (case local_hostname s of None \<Rightarrow> False | Some x \<Rightarrow> contains_newline x) then
        Inl (ValueError ''The local_hostname param contains prohibited newline characters'')
      else if (case hostname s of None \<Rightarrow> False | Some x \<Rightarrow> contains_newline x) then
        Inl (ValueError ''The hostname param contains prohibited newline characters'')
      else Inr ())"

text \<open>\<open>__init__\<close>: stores the arguments (\<open>init_fields\<close>), then validates.\<close>

definition init_fields :: "init_args \<Rightarrow> SMTPConnection" where
  "init_fields a =
     (let s = \<lparr>protocol = None, transport = None,
                hostname = i_hostname a, port = i_port a,
                login_username = i_username a, login_password = i_password a,
                local_hostname = i_local_hostname a, timeout = i_timeout a,
                use_tls = i_use_tls a, start_tls_on_connect = i_start_tls a,
                validate_certs = i_validate_certs a, client_cert = i_client_cert a,
                client_key = i_client_key a, tls_context = i_tls_context a,
                cert_bundle = i_cert_bundle a, socket_path = i_socket_path a,
                sock = i_sock a, source_address = None, loop = None,
                connect_lock = None, closed_transports = []\<rparr>;
          s = (case i_source_address a of
                 Some (AddrStr x) \<Rightarrow>
                   (if x \<noteq> [] then s\<lparr>local_hostname := Some x\<rparr>
                    else s\<lparr>source_address := Some (AddrStr x)\<rparr>)
               | v \<Rightarrow> s\<lparr>source_address := v\<rparr>)
      in s)"

definition init :: "init_args \<Rightarrow> exn + SMTPConnection" where
  "init a =
     (let s = init_fields a in
      case validate_config s of Inl exc \<Rightarrow> Inl exc | Inr u \<Rightarrow> Inr s)"

section \<open>Teardown\<close>

text \<open>
  \<open>close\<close>: closes the transport unless it is absent or already closing, releases
  the lock if it is held, and clears both references. Nothing in it can raise
  (\<open>Lock.release\<close> raises only on a lock that is not held, and the call is guarded).
\<close>

definition close :: "SMTPConnection \<Rightarrow> SMTPConnection" where
  "close s0 =
     (let s = (case transport s0 of
                 None \<Rightarrow> s0
               | Some t \<Rightarrow>
                   (if \<not> is_closing t then s0\<lparr>closed_transports := closed_transports s0 @ [t]\<rparr>
                    else s0));
          s = (case connect_lock s of
                 None \<Rightarrow> s
               | Some l \<Rightarrow> (if locked l then s\<lparr>connect_lock := Some (Lock False)\<rparr> else s))
      in s\<lparr>protocol := None, transport := None\<rparr>)"

text \<open>\<open>_connection_lost\<close>, the callback the protocol engine calls with its waiter.\<close>

definition connection_lost :: "Future \<Rightarrow> SMTPConnection \<Rightarrow> SMTPConnection" where
  "connection_lost waiter s =
     (if cancelled waiter \<or> exception waiter \<noteq> None then close s else s)"

section \<open>Connecting\<close>

text \<open>\<open>_get_tls_context\<close>.\<close>

definition create_default_context :: SSLContext where
  "create_default_context =
     \<lparr>check_hostname = True, verify_mode = CERT_REQUIRED, verify_locations = [], cert_chains = []\<rparr>"

definition get_tls_context :: "env \<Rightarrow> SMTPConnection \<Rightarrow> exn + SSLContext" where
  "get_tls_context e s =
     (case tls_context s of
        Some context \<Rightarrow> Inr context
      | None \<Rightarrow>
          (let context = create_default_context\<lparr>check_hostname := validate_certs s\<rparr>;
               context = (if validate_certs s then context\<lparr>verify_mode := CERT_REQUIRED\<rparr>
                          else context\<lparr>verify_mode := CERT_NONE\<rparr>)
           in case (case cert_bundle s of
                      None \<Rightarrow> Inr context
                    | Some f \<Rightarrow>
                        (case load_verify_locations e f of
                           Some exc \<Rightarrow> Inl exc
                         | None \<Rightarrow> Inr (context\<lparr>verify_locations := verify_locations context @ [f]\<rparr>))) of
                Inl exc \<Rightarrow> Inl exc
              | Inr context \<Rightarrow>
                  (case client_cert s of
                     None \<Rightarrow> Inr context
                   | Some c \<Rightarrow>
                       (case load_cert_chain e c (client_key s) of
                          Some exc \<Rightarrow> Inl exc
                        | None \<Rightarrow> Inr (context\<lparr>cert_chains := cert_chains context @ [(c, client_key s)]\<rparr>)))))"

text \<open>
  The part of \<open>_create_connection\<close> that chooses the call which opens the transport:
  the supplied socket, else the socket path, else hostname and port.
\<close>

definition connect_coro_of :: "SMTPConnection \<Rightarrow> SSLContext option \<Rightarrow> real option \<Rightarrow> exn + connect_coro" where
  "connect_coro_of s tls ssl_handshake_timeout =
     (case sock s of
        Some k \<Rightarrow> Inr (create_connection_sock k tls ssl_handshake_timeout)
      | None \<Rightarrow>
          (case (if truthy_socket_path (socket_path s) then socket_path s else None) of
             Some path \<Rightarrow> Inr (create_unix_connection path tls ssl_handshake_timeout)
           | None \<Rightarrow>
               (case hostname s of
                  None \<Rightarrow> Inl (RuntimeError ''No hostname provided; default should have been set'')
                | Some h \<Rightarrow>
                    (case port s of
                       None \<Rightarrow> Inl (RuntimeError ''No port provided; default should have been set'')
                     | Some p \<Rightarrow>
                         Inr (create_connection_host h p tls ssl_handshake_timeout (source_address s))))))"

definition connect_error_message :: "SMTPConnection \<Rightarrow> exn \<Rightarrow> string" where
  "connect_error_message s exc =
     ''Error connecting to '' @ py_str_opt_str (hostname s) @ '' on port '' @
     py_str_opt_int (port s) @ '': '' @ py_str_exn exc"

definition connect_timeout_message :: "SMTPConnection \<Rightarrow> string" where
  "connect_timeout_message s =
     ''Timed out connecting to '' @ py_str_opt_str (hostname s) @ '' on port '' @
     py_str_opt_int (port s)"

text \<open>
  The second half of \<open>_create_connection\<close>, from the moment the transport is open:
  binds protocol and transport, reads the greeting and checks its code. The
  \<open>except\<close> clauses are tried in the source's order, here as in the first half:
  the first whose class the exception is an instance of handles it.
\<close>

definition read_greeting :: "env \<Rightarrow> SMTPProtocol \<Rightarrow> Transport \<Rightarrow> SMTPConnection \<Rightarrow> (exn + SMTPResponse) \<times> SMTPConnection" where
  "read_greeting e p t s0 =
     (let s = s0\<lparr>protocol := Some p, transport := Some t\<rparr> in
      case read_response e p (timeout s) of
        Inl exc \<Rightarrow>
          (if isinstance e exc SMTPServerDisconnected_class then
             (Inl (SMTPConnectError (connect_error_message s exc) (Some exc)), s)
           else if isinstance e exc SMTPTimeoutError_class then
             (Inl (SMTPConnectTimeoutError ''Timed out waiting for server ready message''
                     (Some exc)), s)
           else (Inl exc, s))
      | Inr response \<Rightarrow>
          (if code response \<noteq> SMTPStatus_ready then
             (Inl (SMTPConnectError (str_response e response) None), s)
           else (Inr response, s)))"

definition create_connection :: "env \<Rightarrow> SMTPConnection \<Rightarrow> (exn + SMTPResponse) \<times> SMTPConnection" where
  "create_connection e s =
     (case loop s of
        None \<Rightarrow> (Inl (RuntimeError ''No event loop set''), s)
      | Some l \<Rightarrow>
          (let p = SMTPProtocol l in
           case (if use_tls s then map_sum id Some (get_tls_context e s) else Inr None) of
             Inl exc \<Rightarrow> (Inl exc, s)
           | Inr tls \<Rightarrow>
               (let ssl_handshake_timeout = (if use_tls s then timeout s else None) in
                case connect_coro_of s tls ssl_handshake_timeout of
                  Inl exc \<Rightarrow> (Inl exc, s)
                | Inr coro \<Rightarrow>
                    (case wait_for e coro (timeout s) of
                       Inl exc \<Rightarrow>
                         (if isinstance e exc OSError_class then
                            (Inl (SMTPConnectError (connect_error_message s exc) (Some exc)), s)
                          else if isinstance e exc asyncio_TimeoutError_class then
                            (Inl (SMTPConnectTimeoutError (connect_timeout_message s)
                                    (Some exc)), s)
                          else (Inl exc, s))
                     | Inr t \<Rightarrow> read_greeting e p t s))))"

text \<open>\<open>_post_connect\<close>: a hook that does nothing in this class.\<close>

definition post_connect :: "SMTPConnection \<Rightarrow> SMTPConnection" where
  "post_connect s = s"

text \<open>The default port, set by \<open>connect\<close> once it holds the lock.\<close>

definition set_default_port :: "SMTPConnection \<Rightarrow> SMTPConnection" where
  "set_default_port s =
     (if port s = None \<and> sock s = None \<and> socket_path s = None then
        (if use_tls s then s\<lparr>port := Some SMTP_TLS_PORT\<rparr>
         else if truthy_bool (start_tls_on_connect s) then s\<lparr>port := Some SMTP_STARTTLS_PORT\<rparr>
         else s\<lparr>port := Some SMTP_PORT\<rparr>)
      else s)"

text \<open>
  \<open>await self._connect_lock.acquire()\<close>: a free lock is taken at once; on a held
  lock the call waits, and takes the lock when it is released.
\<close>

definition acquire :: "env \<Rightarrow> SMTPConnection \<Rightarrow> acquired" where
  "acquire e s =
     (if connect_lock s = Some (Lock True) then
        (case lock_wait e s of
           Acquired s' \<Rightarrow> Acquired (s'\<lparr>connect_lock := Some (Lock True)\<rparr>)
         | Cancelled s' \<Rightarrow> Cancelled s'
         | Never \<Rightarrow> Never)
      else Acquired (s\<lparr>connect_lock := Some (Lock True)\<rparr>))"

text \<open>
  \<open>connect\<close>: merge, validate, take the lock, default the port, open the connection.
  \<open>except Exception\<close> closes the instance before the exception is raised again; an
  exception that is not an \<open>Exception\<close> passes it by.
\<close>

definition connect :: "env \<Rightarrow> connect_kwargs \<Rightarrow> SMTPConnection \<Rightarrow> SMTPResponse outcome \<times> SMTPConnection" where
  "connect e kw s0 =
     (let s = update_settings_from_kwargs kw s0 in
      case validate_config s of
        Inl exc \<Rightarrow> (Raised exc, s)
      | Inr u \<Rightarrow>
          (let s = s\<lparr>loop := Some (get_running_loop e)\<rparr>;
               s = (if connect_lock s = None then s\<lparr>connect_lock := Some (Lock False)\<rparr> else s)
           in case acquire e s of
                Never \<Rightarrow> (Blocked, s)
              | Cancelled s' \<Rightarrow> (Raised CancelledError, s')
              | Acquired s \<Rightarrow>
                  (let s = set_default_port s in
                   case create_connection e s of
                     (Inl exc, s') \<Rightarrow>
                       (if isinstance e exc Exception_class then (Raised exc, close s')
                        else (Raised exc, s'))
                   | (Inr response, s') \<Rightarrow> (Returned response, post_connect s'))))"

section \<open>Commands and introspection\<close>

definition execute_command :: "env \<Rightarrow> string list \<Rightarrow> real option arg \<Rightarrow> SMTPConnection \<Rightarrow> (exn + SMTPResponse) \<times> SMTPConnection" where
  "execute_command e args timeout_arg s =
     (case protocol s of
        None \<Rightarrow> (Inl (SMTPServerDisconnected ''Server not connected''), s)
      | Some p \<Rightarrow>
          (let tmo = (case timeout_arg of Default \<Rightarrow> timeout s | Given v \<Rightarrow> v) in
           case protocol_execute_command e p args tmo of
             Inl exc \<Rightarrow> (Inl exc, s)
           | Inr response \<Rightarrow>
               (if code response = SMTPStatus_domain_unavailable then (Inr response, close s)
                else (Inr response, s))))"

definition get_transport_info :: "string \<Rightarrow> SMTPConnection \<Rightarrow> exn + string option" where
  "get_transport_info key s =
     (case transport s of
        None \<Rightarrow> Inl (SMTPServerDisconnected ''Server not connected'')
      | Some t \<Rightarrow> Inr (map_of (extra_info t) key))"

section \<open>Example values\<close>

definition fresh :: SMTPConnection where
  "fresh = init_fields init_defaults"

definition example_transport :: Transport where
  "example_transport = \<lparr>transport_id = 1, is_closing = False, extra_info = [(''peername'', ''127.0.0.1'')]\<rparr>"

definition greeting :: SMTPResponse where
  "greeting = \<lparr>code = 220, message = ''mail.example ESMTP''\<rparr>"

definition completed :: SMTPResponse where
  "completed = \<lparr>code = 250, message = ''OK''\<rparr>"

definition unavailable :: SMTPResponse where
  "unavailable = \<lparr>code = 421, message = ''shutting down''\<rparr>"

definition example_env :: env where
  "example_env =
     \<lparr>get_running_loop = 0,
      load_verify_locations = (\<lambda>f. None),
      load_cert_chain = (\<lambda>c k. None),
      wait_for = (\<lambda>coro t. Inr example_transport),
      read_response = (\<lambda>p t. Inr greeting),
      protocol_execute_command = (\<lambda>p args t. Inr completed),
      str_response = (\<lambda>r. py_str_int (code r) @ '' '' @ message r),
      derives_from = (\<lambda>exc c. False),
      lock_wait = (\<lambda>s. Never)\<rparr>"

definition connected :: SMTPConnection where
  "connected =
     fresh\<lparr>port := Some 25, loop := Some 0, connect_lock := Some (Lock True),
           protocol := Some (SMTPProtocol 0), transport := Some example_transport\<rparr>"

lemmas example_defs =
  fresh_def init_fields_def init_defaults_def example_transport_def greeting_def
  completed_def unavailable_def example_env_def connected_def no_kwargs_def

lemmas truthy_defs =
  truthy_bool_def truthy_str_def truthy_int_def truthy_socket_path_def contains_newline_def

lemma init_defaults_fresh: "init init_defaults = Inr fresh"
  by (simp add: init_def example_defs validate_config_def truthy_defs Let_def)

lemma validate_fresh: "validate_config fresh = Inr ()"
  by (simp add: example_defs validate_config_def truthy_defs Let_def)

lemma update_no_kwargs: "update_settings_from_kwargs no_kwargs s = s"
  by (simp add: update_settings_from_kwargs_def no_kwargs_def)


section \<open>close\<close>



section \<open>Commands on a bound and on an unbound instance\<close>

text \<open>
  Claim C3. Whenever \<open>execute_command\<close> returns a response, a response with code 421
  leaves the instance closed (the state is \<open>close\<close> of the state before, with
  protocol and transport unbound), and a response with any other code leaves the
  state as it was.
\<close>

theorem execute_command_closes_on_421:
  assumes "execute_command e args tmo s = (Inr r, s')"
  shows "(code r = 421 \<longrightarrow> s' = close s \<and> protocol s' = None \<and> transport s' = None) \<and>
         (code r \<noteq> 421 \<longrightarrow> s' = s)"
  using assms
  by (auto simp: execute_command_def SMTPStatus_domain_unavailable_def close_def Let_def
           split: option.splits sum.splits if_splits)

definition env_421 :: env where
  "env_421 = example_env\<lparr>protocol_execute_command := (\<lambda>p args t. Inr unavailable)\<rparr>"

lemma execute_421: "execute_command env_421 [''NOOP''] Default connected = (Inr unavailable, close connected)"
  by (simp add: execute_command_def env_421_def example_defs SMTPStatus_domain_unavailable_def Let_def)

lemma execute_250: "execute_command example_env [''NOOP''] Default connected = (Inr completed, connected)"
  by (simp add: execute_command_def example_defs SMTPStatus_domain_unavailable_def Let_def)

theorem execute_command_closes_on_421_witness:
  "execute_command env_421 [''NOOP''] Default connected = (Inr unavailable, close connected) \<and>
   code unavailable = 421 \<and> protocol (close connected) = None \<and> transport (close connected) = None \<and>
   protocol connected \<noteq> None \<and> transport connected \<noteq> None \<and>
   execute_command example_env [''NOOP''] Default connected = (Inr completed, connected) \<and>
   code completed \<noteq> 421"
  using execute_command_closes_on_421 [OF execute_421] execute_command_closes_on_421 [OF execute_250]
  by (simp add: execute_421 execute_250) (simp add: example_defs)

text \<open>
  The error taxonomy of the spec (section 7), and the member each exception class of
  the code stands for. No class of the code stands for \<open>NotConnected\<close>.
\<close>

datatype taxonomy =
    ConfigurationError | ConnectError | ConnectTimeout | CommandTimeout
  | ServerDisconnected | NotConnected | ResponseError

fun taxonomy_of :: "exn \<Rightarrow> taxonomy option" where
  "taxonomy_of (ValueError m) = Some ConfigurationError"
| "taxonomy_of (SMTPConnectError m c) = Some ConnectError"
| "taxonomy_of (SMTPConnectTimeoutError m c) = Some ConnectTimeout"
| "taxonomy_of (SMTPTimeoutError m) = Some CommandTimeout"
| "taxonomy_of (SMTPServerDisconnected m) = Some ServerDisconnected"
| "taxonomy_of (RuntimeError m) = None"
| "taxonomy_of (OSError m) = None"
| "taxonomy_of asyncio_TimeoutError = None"
| "taxonomy_of CancelledError = None"
| "taxonomy_of (OtherException m) = None"

text \<open>
  Claim C4, as stated, fails: on a freshly constructed instance both operations raise
  \<open>SMTPServerDisconnected\<close>, the class of the taxonomy's \<open>ServerDisconnected\<close>, not
  a distinct \<open>NotConnected\<close>.
\<close>

theorem unbound_raises_not_connected_counterexample:
  "protocol fresh = None \<and> transport fresh = None \<and>
   fst (execute_command example_env [''NOOP''] Default fresh) = Inl (SMTPServerDisconnected ''Server not connected'') \<and>
   get_transport_info ''peername'' fresh = Inl (SMTPServerDisconnected ''Server not connected'') \<and>
   taxonomy_of (SMTPServerDisconnected ''Server not connected'') = Some ServerDisconnected \<and>
   taxonomy_of (SMTPServerDisconnected ''Server not connected'') \<noteq> Some NotConnected"
  by (simp add: execute_command_def get_transport_info_def example_defs)

text \<open>
  Claim C4, amended. With no protocol bound, \<open>execute_command\<close> raises
  \<open>SMTPServerDisconnected\<close> ("Server not connected") whatever the collaborators would
  do, and leaves the instance as it was; with no transport bound,
  \<open>get_transport_info\<close> raises the same exception.
\<close>

theorem unbound_raises_server_disconnected:
  "(protocol s = None \<longrightarrow>
      execute_command e args tmo s = (Inl (SMTPServerDisconnected ''Server not connected''), s)) \<and>
   (transport s = None \<longrightarrow>
      get_transport_info key s = Inl (SMTPServerDisconnected ''Server not connected''))"
  by (simp add: execute_command_def get_transport_info_def)

theorem unbound_raises_server_disconnected_witness:
  "protocol (close connected) = None \<and> transport (close connected) = None \<and>
   execute_command env_421 [''NOOP''] (Given (Some 5)) (close connected) =
     (Inl (SMTPServerDisconnected ''Server not connected''), close connected) \<and>
   get_transport_info ''cipher'' (close connected) = Inl (SMTPServerDisconnected ''Server not connected'')"
proof -
  have p: "protocol (close connected) = None" and t: "transport (close connected) = None"
    by (simp_all add: close_def Let_def split: option.splits)
  from unbound_raises_server_disconnected [of "close connected" env_421 "[''NOOP'']" "Given (Some 5)" "''cipher''"] p t
  show ?thesis by simp
qed

section \<open>What connect leaves behind\<close>


lemma close_fields [simp]:
  "protocol (close s) = None"
  "transport (close s) = None"
  "port (close s) = port s"
  by (simp_all add: close_def Let_def split: option.split)

lemma read_greeting_state:
  "snd (read_greeting e p t s) = s\<lparr>protocol := Some p, transport := Some t\<rparr>"
  by (simp add: read_greeting_def Let_def split: sum.split)

lemma read_greeting_Inr:
  "fst (read_greeting e p t s) = Inr r \<Longrightarrow>
     code r = 220 \<and> read_response e p (timeout s) = Inr r"
  by (simp add: read_greeting_def SMTPStatus_ready_def Let_def split: sum.splits if_splits)

lemma create_connection_state:
  "snd (create_connection e s) = s \<or>
   (\<exists>l t. loop s = Some l \<and>
      snd (create_connection e s) = s\<lparr>protocol := Some (SMTPProtocol l), transport := Some t\<rparr>)"
proof (cases "loop s")
  case None
  then show ?thesis by (simp add: create_connection_def)
next
  case (Some l)
  show ?thesis
  proof (cases "if use_tls s then map_sum id Some (get_tls_context e s) else Inr None")
    case (Inl exc)
    with Some show ?thesis by (simp add: create_connection_def)
  next
    case tls: (Inr c)
    show ?thesis
    proof (cases "connect_coro_of s c (if use_tls s then timeout s else None)")
      case (Inl exc)
      with Some tls show ?thesis by (simp add: create_connection_def Let_def)
    next
      case coro: (Inr k)
      show ?thesis
      proof (cases "wait_for e k (timeout s)")
        case (Inl exc)
        with Some tls coro show ?thesis
          by (simp add: create_connection_def Let_def)
      next
        case (Inr t)
        with Some tls coro show ?thesis
          by (simp add: create_connection_def Let_def read_greeting_state) blast
      qed
    qed
  qed
qed

lemma create_connection_port: "port (snd (create_connection e s)) = port s"
  using create_connection_state [of e s] by (elim disjE exE conjE) simp_all


lemma create_connection_Inr:
  assumes "fst (create_connection e s) = Inr r"
  shows "code r = 220 \<and>
     (\<exists>l t. loop s = Some l \<and>
        snd (create_connection e s) = s\<lparr>protocol := Some (SMTPProtocol l), transport := Some t\<rparr> \<and>
        read_response e (SMTPProtocol l) (timeout s) = Inr r)"
proof (cases "loop s")
  case None
  with assms show ?thesis by (simp add: create_connection_def)
next
  case (Some l)
  show ?thesis
  proof (cases "if use_tls s then map_sum id Some (get_tls_context e s) else Inr None")
    case (Inl exc)
    with Some assms show ?thesis by (simp add: create_connection_def)
  next
    case tls: (Inr c)
    show ?thesis
    proof (cases "connect_coro_of s c (if use_tls s then timeout s else None)")
      case (Inl exc)
      with Some tls assms show ?thesis by (simp add: create_connection_def Let_def)
    next
      case coro: (Inr k)
      show ?thesis
      proof (cases "wait_for e k (timeout s)")
        case (Inl exc)
        with Some tls coro assms show ?thesis
          by (simp add: create_connection_def Let_def split: if_splits)
      next
        case (Inr t)
        with Some tls coro have cc: "create_connection e s = read_greeting e (SMTPProtocol l) t s"
          by (simp add: create_connection_def Let_def)
        with assms have "fst (read_greeting e (SMTPProtocol l) t s) = Inr r" by simp
        from read_greeting_Inr [OF this] Some cc show ?thesis
          by (simp add: read_greeting_state) blast
      qed
    qed
  qed
qed

section \<open>The settings merge, one assignment at a time\<close>

text \<open>
  Each conditional assignment of \<open>_update_settings_from_kwargs\<close> is a single update of
  one field by a function of the field's old value; the merge is their composition.
\<close>

lemma assignment_as_update:
  "(case a_hostname of Default \<Rightarrow> s | Given v \<Rightarrow> s\<lparr>hostname := v\<rparr>) =
     hostname_update (case a_hostname of Default \<Rightarrow> (\<lambda>x. x) | Given v \<Rightarrow> (\<lambda>x. v)) s"
  "(case o_use_tls of None \<Rightarrow> s | Some v \<Rightarrow> s\<lparr>use_tls := v\<rparr>) =
     use_tls_update (case o_use_tls of None \<Rightarrow> (\<lambda>x. x) | Some v \<Rightarrow> (\<lambda>x. v)) s"
  "(case a_start_tls_on_connect of Default \<Rightarrow> s | Given v \<Rightarrow> s\<lparr>start_tls_on_connect := v\<rparr>) =
     start_tls_on_connect_update (case a_start_tls_on_connect of Default \<Rightarrow> (\<lambda>x. x) | Given v \<Rightarrow> (\<lambda>x. v)) s"
  "(case o_validate_certs of None \<Rightarrow> s | Some v \<Rightarrow> s\<lparr>validate_certs := v\<rparr>) =
     validate_certs_update (case o_validate_certs of None \<Rightarrow> (\<lambda>x. x) | Some v \<Rightarrow> (\<lambda>x. v)) s"
  "(case a_port of Default \<Rightarrow> s | Given v \<Rightarrow> s\<lparr>port := v\<rparr>) =
     port_update (case a_port of Default \<Rightarrow> (\<lambda>x. x) | Given v \<Rightarrow> (\<lambda>x. v)) s"
  "(case a_login_username of Default \<Rightarrow> s | Given v \<Rightarrow> s\<lparr>login_username := v\<rparr>) =
     login_username_update (case a_login_username of Default \<Rightarrow> (\<lambda>x. x) | Given v \<Rightarrow> (\<lambda>x. v)) s"
  "(case a_login_password of Default \<Rightarrow> s | Given v \<Rightarrow> s\<lparr>login_password := v\<rparr>) =
     login_password_update (case a_login_password of Default \<Rightarrow> (\<lambda>x. x) | Given v \<Rightarrow> (\<lambda>x. v)) s"
  "(case a_timeout of Default \<Rightarrow> s | Given v \<Rightarrow> s\<lparr>timeout := v\<rparr>) =
     timeout_update (case a_timeout of Default \<Rightarrow> (\<lambda>x. x) | Given v \<Rightarrow> (\<lambda>x. v)) s"
  "(case a_local_hostname of Default \<Rightarrow> s | Given v \<Rightarrow> s\<lparr>local_hostname := v\<rparr>) =
     local_hostname_update (case a_local_hostname of Default \<Rightarrow> (\<lambda>x. x) | Given v \<Rightarrow> (\<lambda>x. v)) s"
  "(case a_client_cert of Default \<Rightarrow> s | Given v \<Rightarrow> s\<lparr>client_cert := v\<rparr>) =
     client_cert_update (case a_client_cert of Default \<Rightarrow> (\<lambda>x. x) | Given v \<Rightarrow> (\<lambda>x. v)) s"
  "(case a_client_key of Default \<Rightarrow> s | Given v \<Rightarrow> s\<lparr>client_key := v\<rparr>) =
     client_key_update (case a_client_key of Default \<Rightarrow> (\<lambda>x. x) | Given v \<Rightarrow> (\<lambda>x. v)) s"
  "(case a_tls_context of Default \<Rightarrow> s | Given v \<Rightarrow> s\<lparr>tls_context := v\<rparr>) =
     tls_context_update (case a_tls_context of Default \<Rightarrow> (\<lambda>x. x) | Given v \<Rightarrow> (\<lambda>x. v)) s"
  "(case a_cert_bundle of Default \<Rightarrow> s | Given v \<Rightarrow> s\<lparr>cert_bundle := v\<rparr>) =
     cert_bundle_update (case a_cert_bundle of Default \<Rightarrow> (\<lambda>x. x) | Given v \<Rightarrow> (\<lambda>x. v)) s"
  "(case a_socket_path of Default \<Rightarrow> s | Given v \<Rightarrow> s\<lparr>socket_path := v\<rparr>) =
     socket_path_update (case a_socket_path of Default \<Rightarrow> (\<lambda>x. x) | Given v \<Rightarrow> (\<lambda>x. v)) s"
  "(case a_sock of Default \<Rightarrow> s | Given v \<Rightarrow> s\<lparr>sock := v\<rparr>) =
     sock_update (case a_sock of Default \<Rightarrow> (\<lambda>x. x) | Given v \<Rightarrow> (\<lambda>x. v)) s"
  by (simp_all split: arg.split option.split)

lemma source_address_as_update:
  "(case a of Default \<Rightarrow> s
    | Given (Some (AddrStr x)) \<Rightarrow> s\<lparr>local_hostname := Some x\<rparr>
    | Given v \<Rightarrow> s\<lparr>source_address := v\<rparr>) =
   local_hostname_update
     (case a of Given (Some (AddrStr x)) \<Rightarrow> (\<lambda>y. Some x) | _ \<Rightarrow> (\<lambda>y. y))
     (source_address_update
        (case a of Default \<Rightarrow> (\<lambda>y. y) | Given (Some (AddrStr x)) \<Rightarrow> (\<lambda>y. y) | Given v \<Rightarrow> (\<lambda>y. v)) s)"
  by (simp split: arg.split option.split source_address.split)

lemma update_settings_frame:
  "protocol (update_settings_from_kwargs kw s) = protocol s"
  "transport (update_settings_from_kwargs kw s) = transport s"
  "loop (update_settings_from_kwargs kw s) = loop s"
  "connect_lock (update_settings_from_kwargs kw s) = connect_lock s"
  "closed_transports (update_settings_from_kwargs kw s) = closed_transports s"
  by (simp_all add: update_settings_from_kwargs_def assignment_as_update source_address_as_update Let_def)

section \<open>The ways through connect\<close>

text \<open>
  The \<open>try\<close> block of \<open>connect\<close> with its \<open>except\<close> clause, and the two states
  \<open>connect\<close> passes through before it: the state in which it asks for the lock, and
  the state in which it calls \<open>_create_connection\<close> when the lock was free (settings
  merged, loop stored, lock held, default port set).
\<close>

definition attempt :: "env \<Rightarrow> SMTPConnection \<Rightarrow> SMTPResponse outcome \<times> SMTPConnection" where
  "attempt e s =
     (case create_connection e s of
        (Inl exc, s') \<Rightarrow>
          (if isinstance e exc Exception_class then (Raised exc, close s') else (Raised exc, s'))
      | (Inr response, s') \<Rightarrow> (Returned response, post_connect s'))"

definition waiting_state :: "env \<Rightarrow> connect_kwargs \<Rightarrow> SMTPConnection \<Rightarrow> SMTPConnection" where
  "waiting_state e kw s0 =
     (let s = (update_settings_from_kwargs kw s0)\<lparr>loop := Some (get_running_loop e)\<rparr>
      in if connect_lock s = None then s\<lparr>connect_lock := Some (Lock False)\<rparr> else s)"

definition attempt_state :: "env \<Rightarrow> connect_kwargs \<Rightarrow> SMTPConnection \<Rightarrow> SMTPConnection" where
  "attempt_state e kw s0 =
     set_default_port
       ((update_settings_from_kwargs kw s0)\<lparr>loop := Some (get_running_loop e), connect_lock := Some (Lock True)\<rparr>)"

lemma connect_invalid:
  assumes "validate_config (update_settings_from_kwargs kw s0) = Inl exc"
  shows "connect e kw s0 = (Raised exc, update_settings_from_kwargs kw s0)"
  using assms by (simp add: connect_def Let_def)

lemma connect_valid:
  assumes "validate_config (update_settings_from_kwargs kw s0) = Inr ()"
  shows "connect e kw s0 =
           (case acquire e (waiting_state e kw s0) of
              Never \<Rightarrow> (Blocked, waiting_state e kw s0)
            | Cancelled s' \<Rightarrow> (Raised CancelledError, s')
            | Acquired s \<Rightarrow> attempt e (set_default_port s))"
proof (cases "connect_lock (update_settings_from_kwargs kw s0)")
  case None
  with assms show ?thesis
    by (simp add: connect_def waiting_state_def attempt_def Let_def split: acquired.split)
next
  case (Some l)
  with assms show ?thesis
    by (simp add: connect_def waiting_state_def attempt_def Let_def split: acquired.split)
qed

lemma waiting_state_lock:
  "(connect_lock (waiting_state e kw s0) = Some (Lock True)) = (connect_lock s0 = Some (Lock True))"
  by (simp add: waiting_state_def Let_def update_settings_frame)

lemma acquire_free:
  "connect_lock s \<noteq> Some (Lock True) \<Longrightarrow> acquire e s = Acquired (s\<lparr>connect_lock := Some (Lock True)\<rparr>)"
  by (simp add: acquire_def)

lemma acquire_Never: "acquire e s = Never \<Longrightarrow> connect_lock s = Some (Lock True)"
  by (simp add: acquire_def split: if_splits)



lemma connect_attempt:
  assumes "validate_config (update_settings_from_kwargs kw s0) = Inr ()"
    and "connect_lock s0 \<noteq> Some (Lock True)"
  shows "connect e kw s0 = attempt e (attempt_state e kw s0)"
proof -
  have free: "connect_lock (waiting_state e kw s0) \<noteq> Some (Lock True)"
    using assms(2) by (simp add: waiting_state_lock)
  have "(waiting_state e kw s0)\<lparr>connect_lock := Some (Lock True)\<rparr> =
        (update_settings_from_kwargs kw s0)\<lparr>loop := Some (get_running_loop e), connect_lock := Some (Lock True)\<rparr>"
    by (simp add: waiting_state_def Let_def)
  then show ?thesis
    by (simp add: connect_valid [OF assms(1)] acquire_free [OF free] attempt_state_def)
qed

lemma attempt_port: "port (snd (attempt e s)) = port s"
proof -
  obtain x s' where c: "create_connection e s = (x, s')" by (cases "create_connection e s")
  with create_connection_port [of e s] have p: "port s' = port s" by simp
  show ?thesis by (cases x) (simp_all add: attempt_def c post_connect_def p)
qed

lemma attempt_not_Blocked: "fst (attempt e s) \<noteq> Blocked"
  by (simp add: attempt_def split: prod.split sum.split)

lemma attempt_Returned:
  assumes "attempt e s = (Returned r, s')"
  shows "code r = 220 \<and>
     (\<exists>l t. loop s = Some l \<and> s' = s\<lparr>protocol := Some (SMTPProtocol l), transport := Some t\<rparr> \<and>
        read_response e (SMTPProtocol l) (timeout s) = Inr r)"
proof -
  from assms have f: "fst (create_connection e s) = Inr r" and s: "s' = snd (create_connection e s)"
    by (auto simp: attempt_def post_connect_def split: prod.splits sum.splits if_splits)
  from create_connection_Inr [OF f] s show ?thesis by auto
qed

lemma attempt_Raised:
  assumes "attempt e s = (Raised exc, s')"
  shows "s' = (if isinstance e exc Exception_class then close (snd (create_connection e s))
               else snd (create_connection e s))"
  using assms by (auto simp: attempt_def split: prod.splits sum.splits if_splits)

lemma set_default_port_frame:
  "connect_lock (set_default_port s) = connect_lock s"
  "loop (set_default_port s) = loop s"
  "timeout (set_default_port s) = timeout s"
  by (simp_all add: set_default_port_def)

lemma attempt_state_fields:
  "connect_lock (attempt_state e kw s0) = Some (Lock True)"
  "loop (attempt_state e kw s0) = Some (get_running_loop e)"
  by (simp_all add: attempt_state_def set_default_port_frame)

lemma truthy_bool_Some_True: "truthy_bool v = (v = Some True)"
  by (cases v) (simp_all add: truthy_bool_def)

lemma attempt_state_port:
  "port (attempt_state e kw s0) =
     (let m = update_settings_from_kwargs kw s0 in
      if port m = None \<and> sock m = None \<and> socket_path m = None then
        (if use_tls m then Some 465
         else if start_tls_on_connect m = Some True then Some 587
         else Some 25)
      else port m)"
  by (simp add: attempt_state_def set_default_port_def truthy_bool_Some_True Let_def
        SMTP_PORT_def SMTP_TLS_PORT_def SMTP_STARTTLS_PORT_def)

definition env_refused :: env where
  "env_refused = example_env\<lparr>wait_for := (\<lambda>coro t. Inl (OSError ''[Errno 111] Connection refused''))\<rparr>"



text \<open>
  What holds of \<open>connect\<close> on a merged configuration that passes validation. When it
  returns, the response is the greeting read from the new protocol, its code is 220,
  and protocol and transport are bound. When it raises an \<open>Exception\<close>, protocol and
  transport are both unbound. It stays suspended for ever only when the lock was held
  at the call.
\<close>

lemma connect_returns_bound_or_resets:
  assumes "validate_config (update_settings_from_kwargs kw s0) = Inr ()"
  shows "case connect e kw s0 of
           (Returned r, s) \<Rightarrow>
             code r = 220 \<and> transport s \<noteq> None \<and>
             (\<exists>p. protocol s = Some p \<and> read_response e p (timeout s) = Inr r)
         | (Raised exc, s) \<Rightarrow>
             isinstance e exc Exception_class \<longrightarrow> protocol s = None \<and> transport s = None
         | (Blocked, s) \<Rightarrow> connect_lock s0 = Some (Lock True)"
proof (cases "acquire e (waiting_state e kw s0)")
  case Never
  from acquire_Never [OF Never] have "connect_lock s0 = Some (Lock True)"
    by (simp add: waiting_state_lock)
  with Never show ?thesis by (simp add: connect_valid [OF assms])
next
  case (Cancelled s')
  then show ?thesis by (simp add: connect_valid [OF assms] isinstance_def)
next
  case (Acquired s1)
  let ?a = "set_default_port s1"
  have c: "connect e kw s0 = attempt e ?a"
    using Acquired by (simp add: connect_valid [OF assms])
  obtain o' s' where a: "attempt e ?a = (o', s')" by (cases "attempt e ?a")
  show ?thesis
  proof (cases o')
    case (Returned r)
    from attempt_Returned [OF a [unfolded Returned]] a Returned c show ?thesis by auto
  next
    case (Raised exc)
    from attempt_Raised [OF a [unfolded Raised]] a Raised c show ?thesis by simp
  next
    case Blocked
    with a attempt_not_Blocked [of e ?a] show ?thesis by simp
  qed
qed

text \<open>
  Claim C5. When the merged configuration passes validation and \<open>connect\<close> takes the
  lock, the port it leaves is: 465 if the merged port is unset, no socket and no socket
  path is set and \<open>use_tls\<close> holds; 587 if instead \<open>start_tls\<close> is true; 25
  otherwise; and the merged port, unchanged, when the port, a socket or a socket path
  is set.
\<close>

theorem connect_default_port:
  assumes "validate_config (update_settings_from_kwargs kw s0) = Inr ()"
    and "connect_lock s0 \<noteq> Some (Lock True)"
  shows "port (snd (connect e kw s0)) =
     (let m = update_settings_from_kwargs kw s0 in
      if port m = None \<and> sock m = None \<and> socket_path m = None then
        (if use_tls m then Some 465
         else if start_tls_on_connect m = Some True then Some 587
         else Some 25)
      else port m)"
proof -
  have "port (snd (connect e kw s0)) = port (attempt_state e kw s0)"
    using assms by (simp add: connect_attempt attempt_port)
  then show ?thesis by (simp only: attempt_state_port)
qed

definition kw_direct_tls :: connect_kwargs where
  "kw_direct_tls = no_kwargs\<lparr>kw_use_tls := Some True\<rparr>"

definition kw_upgrade_tls :: connect_kwargs where
  "kw_upgrade_tls = no_kwargs\<lparr>kw_start_tls := Given (Some True)\<rparr>"

definition kw_external_socket :: connect_kwargs where
  "kw_external_socket = no_kwargs\<lparr>kw_hostname := Given None, kw_port := Given None, kw_sock := Given (Some (Socket 3))\<rparr>"

definition kw_port_2525 :: connect_kwargs where
  "kw_port_2525 = no_kwargs\<lparr>kw_port := Given (Some 2525)\<rparr>"

lemmas kw_defs = kw_direct_tls_def kw_upgrade_tls_def kw_external_socket_def kw_port_2525_def

lemma merged_examples:
  "update_settings_from_kwargs kw_direct_tls fresh = fresh\<lparr>use_tls := True\<rparr>"
  "update_settings_from_kwargs kw_upgrade_tls fresh = fresh\<lparr>start_tls_on_connect := Some True\<rparr>"
  "update_settings_from_kwargs kw_external_socket fresh = fresh\<lparr>hostname := None, port := None, sock := Some (Socket 3)\<rparr>"
  "update_settings_from_kwargs kw_port_2525 fresh = fresh\<lparr>port := Some 2525\<rparr>"
  by (simp_all add: update_settings_from_kwargs_def kw_defs no_kwargs_def Let_def)

lemma valid_examples:
  "validate_config (update_settings_from_kwargs kw_direct_tls fresh) = Inr ()"
  "validate_config (update_settings_from_kwargs kw_upgrade_tls fresh) = Inr ()"
  "validate_config (update_settings_from_kwargs kw_external_socket fresh) = Inr ()"
  "validate_config (update_settings_from_kwargs kw_port_2525 fresh) = Inr ()"
  "validate_config (update_settings_from_kwargs no_kwargs fresh) = Inr ()"
  by (simp_all only: merged_examples update_no_kwargs)
     (simp_all add: validate_config_def truthy_defs example_defs)

lemma fresh_lock_free: "connect_lock fresh \<noteq> Some (Lock True)"
  by (simp add: example_defs)

theorem connect_default_port_witness:
  "port (snd (connect example_env kw_direct_tls fresh)) = Some 465 \<and>
   port (snd (connect example_env kw_upgrade_tls fresh)) = Some 587 \<and>
   port (snd (connect example_env no_kwargs fresh)) = Some 25 \<and>
   port (snd (connect example_env kw_external_socket fresh)) = None \<and>
   port (snd (connect example_env kw_port_2525 fresh)) = Some 2525"
  using connect_default_port [OF valid_examples(1) fresh_lock_free, of example_env]
        connect_default_port [OF valid_examples(2) fresh_lock_free, of example_env]
        connect_default_port [OF valid_examples(5) fresh_lock_free, of example_env]
        connect_default_port [OF valid_examples(3) fresh_lock_free, of example_env]
        connect_default_port [OF valid_examples(4) fresh_lock_free, of example_env]
  by (simp only: merged_examples update_no_kwargs Let_def) (simp add: example_defs)

definition env_cancelled_greeting :: env where
  "env_cancelled_greeting = example_env\<lparr>read_response := (\<lambda>p t. Inl CancelledError)\<rparr>"

text \<open>
  Claim C1 does not hold of the code. \<open>connect\<close> resets the instance under
  \<open>except Exception\<close>, and a cancellation is not an \<open>Exception\<close>. Here a freshly
  constructed instance connects with no arguments, the transport opens, and the task is
  cancelled while the greeting is awaited: \<open>connect\<close> raises \<open>CancelledError\<close> and
  leaves protocol and transport bound and the lock held, the state a successful
  \<open>connect\<close> leaves.
\<close>

theorem connect_cancelled_during_greeting:
  "validate_config (update_settings_from_kwargs no_kwargs fresh) = Inr () \<and>
   read_response env_cancelled_greeting (SMTPProtocol 0) (Some 60) = Inl CancelledError \<and>
   isinstance env_cancelled_greeting CancelledError Exception_class = False \<and>
   connect env_cancelled_greeting no_kwargs fresh = (Raised CancelledError, connected) \<and>
   protocol connected = Some (SMTPProtocol 0) \<and>
   transport connected = Some example_transport \<and>
   connect_lock connected = Some (Lock True)"
proof -
  have c: "connect env_cancelled_greeting no_kwargs fresh = (Raised CancelledError, connected)"
    by (simp add: connect_def update_no_kwargs validate_fresh Let_def)
       (simp add: example_defs env_cancelled_greeting_def acquire_def isinstance_def
          set_default_port_def create_connection_def connect_coro_of_def read_greeting_def
          truthy_defs SMTP_PORT_def Let_def)
  show ?thesis
    by (simp add: c update_no_kwargs validate_fresh)
       (simp add: env_cancelled_greeting_def isinstance_def connected_def)
qed

section \<open>The connect lock\<close>

definition kw_both_tls :: connect_kwargs where
  "kw_both_tls = no_kwargs\<lparr>kw_use_tls := Some True, kw_start_tls := Given (Some True)\<rparr>"












section \<open>Errors raised while connecting\<close>

lemma fst_create_connection:
  assumes "loop s = Some l"
    and "(if use_tls s then map_sum id Some (get_tls_context e s) else Inr None) = Inr tls"
    and "connect_coro_of s tls (if use_tls s then timeout s else None) = Inr coro"
  shows "fst (create_connection e s) =
           (case wait_for e coro (timeout s) of
              Inl exc \<Rightarrow>
                (if isinstance e exc OSError_class then
                   Inl (SMTPConnectError (connect_error_message s exc) (Some exc))
                 else if isinstance e exc asyncio_TimeoutError_class then
                   Inl (SMTPConnectTimeoutError (connect_timeout_message s) (Some exc))
                 else Inl exc)
            | Inr t \<Rightarrow> fst (read_greeting e (SMTPProtocol l) t s))"
  using assms by (simp add: create_connection_def Let_def split: sum.split)

lemma connect_error_message_bound [simp]:
  "connect_error_message (s\<lparr>protocol := p, transport := t\<rparr>) exc = connect_error_message s exc"
  by (simp add: connect_error_message_def)

lemma fst_read_greeting:
  "fst (read_greeting e p t s) =
     (case read_response e p (timeout s) of
        Inl exc \<Rightarrow>
          (if isinstance e exc SMTPServerDisconnected_class then
             Inl (SMTPConnectError (connect_error_message s exc) (Some exc))
           else if isinstance e exc SMTPTimeoutError_class then
             Inl (SMTPConnectTimeoutError ''Timed out waiting for server ready message'' (Some exc))
           else Inl exc)
      | Inr r \<Rightarrow> (if code r \<noteq> 220 then Inl (SMTPConnectError (str_response e r) None) else Inr r))"
  by (simp add: read_greeting_def SMTPStatus_ready_def Let_def split: sum.split)

lemma fst_attempt:
  "fst (attempt e s) = (case fst (create_connection e s) of Inl exc \<Rightarrow> Raised exc | Inr r \<Rightarrow> Returned r)"
  by (cases "create_connection e s") (simp add: attempt_def split: sum.split)

text \<open>
  The errors of \<open>_create_connection\<close>, once the call that opens the transport has been
  built, clause by clause. An exception of the opening that is an \<open>OSError\<close> raises
  \<open>SMTPConnectError\<close>, whose message names hostname and port and ends with the text
  of the cause; one that is an \<open>asyncio.TimeoutError\<close> and not an \<open>OSError\<close> raises
  \<open>SMTPConnectTimeoutError\<close>. With the transport open, an exception of the greeting
  read that is an \<open>SMTPServerDisconnected\<close> raises \<open>SMTPConnectError\<close>; one that is
  an \<open>SMTPTimeoutError\<close> and not an \<open>SMTPServerDisconnected\<close> raises
  \<open>SMTPConnectTimeoutError\<close>; a greeting whose code is not 220 raises
  \<open>SMTPConnectError\<close> with the response as its text.
\<close>

lemma create_connection_error_mapping:
  assumes "loop s = Some l"
    and "(if use_tls s then map_sum id Some (get_tls_context e s) else Inr None) = Inr tls"
    and "connect_coro_of s tls (if use_tls s then timeout s else None) = Inr coro"
  shows "(\<forall>exc. wait_for e coro (timeout s) = Inl exc \<and> isinstance e exc OSError_class \<longrightarrow>
            fst (create_connection e s) =
              Inl (SMTPConnectError
                     (''Error connecting to '' @ py_str_opt_str (hostname s) @ '' on port '' @
                      py_str_opt_int (port s) @ '': '' @ py_str_exn exc)
                     (Some exc))) \<and>
         (\<forall>exc. wait_for e coro (timeout s) = Inl exc \<and> \<not> isinstance e exc OSError_class \<and>
                 isinstance e exc asyncio_TimeoutError_class \<longrightarrow>
            fst (create_connection e s) =
              Inl (SMTPConnectTimeoutError
                     (''Timed out connecting to '' @ py_str_opt_str (hostname s) @ '' on port '' @
                      py_str_opt_int (port s))
                     (Some exc))) \<and>
         (\<forall>t exc. wait_for e coro (timeout s) = Inr t \<and>
                 read_response e (SMTPProtocol l) (timeout s) = Inl exc \<and>
                 isinstance e exc SMTPServerDisconnected_class \<longrightarrow>
            fst (create_connection e s) =
              Inl (SMTPConnectError
                     (''Error connecting to '' @ py_str_opt_str (hostname s) @ '' on port '' @
                      py_str_opt_int (port s) @ '': '' @ py_str_exn exc)
                     (Some exc))) \<and>
         (\<forall>t exc. wait_for e coro (timeout s) = Inr t \<and>
                 read_response e (SMTPProtocol l) (timeout s) = Inl exc \<and>
                 \<not> isinstance e exc SMTPServerDisconnected_class \<and>
                 isinstance e exc SMTPTimeoutError_class \<longrightarrow>
            fst (create_connection e s) =
              Inl (SMTPConnectTimeoutError ''Timed out waiting for server ready message'' (Some exc))) \<and>
         (\<forall>t r. wait_for e coro (timeout s) = Inr t \<and>
                 read_response e (SMTPProtocol l) (timeout s) = Inr r \<and> code r \<noteq> 220 \<longrightarrow>
            fst (create_connection e s) = Inl (SMTPConnectError (str_response e r) None))"
proof -
  note cc = fst_create_connection [OF assms]
  have 1: "\<forall>exc. wait_for e coro (timeout s) = Inl exc \<and> isinstance e exc OSError_class \<longrightarrow>
            fst (create_connection e s) =
              Inl (SMTPConnectError
                     (''Error connecting to '' @ py_str_opt_str (hostname s) @ '' on port '' @
                      py_str_opt_int (port s) @ '': '' @ py_str_exn exc)
                     (Some exc))"
    by (simp add: cc connect_error_message_def)
  have 2: "\<forall>exc. wait_for e coro (timeout s) = Inl exc \<and> \<not> isinstance e exc OSError_class \<and>
                 isinstance e exc asyncio_TimeoutError_class \<longrightarrow>
            fst (create_connection e s) =
              Inl (SMTPConnectTimeoutError
                     (''Timed out connecting to '' @ py_str_opt_str (hostname s) @ '' on port '' @
                      py_str_opt_int (port s))
                     (Some exc))"
    by (simp add: cc connect_timeout_message_def)
  have 3: "\<forall>t exc. wait_for e coro (timeout s) = Inr t \<and>
                 read_response e (SMTPProtocol l) (timeout s) = Inl exc \<and>
                 isinstance e exc SMTPServerDisconnected_class \<longrightarrow>
            fst (create_connection e s) =
              Inl (SMTPConnectError
                     (''Error connecting to '' @ py_str_opt_str (hostname s) @ '' on port '' @
                      py_str_opt_int (port s) @ '': '' @ py_str_exn exc)
                     (Some exc))"
    by (simp add: cc fst_read_greeting connect_error_message_def)
  have 4: "\<forall>t exc. wait_for e coro (timeout s) = Inr t \<and>
                 read_response e (SMTPProtocol l) (timeout s) = Inl exc \<and>
                 \<not> isinstance e exc SMTPServerDisconnected_class \<and>
                 isinstance e exc SMTPTimeoutError_class \<longrightarrow>
            fst (create_connection e s) =
              Inl (SMTPConnectTimeoutError ''Timed out waiting for server ready message'' (Some exc))"
    by (simp add: cc fst_read_greeting)
  have 5: "\<forall>t r. wait_for e coro (timeout s) = Inr t \<and>
                 read_response e (SMTPProtocol l) (timeout s) = Inr r \<and> code r \<noteq> 220 \<longrightarrow>
            fst (create_connection e s) = Inl (SMTPConnectError (str_response e r) None)"
    by (simp add: cc fst_read_greeting)
  from 1 2 3 4 5 show ?thesis by (intro conjI)
qed

definition env_connect_timeout :: env where
  "env_connect_timeout = example_env\<lparr>wait_for := (\<lambda>coro t. Inl asyncio_TimeoutError)\<rparr>"

definition env_connect_timeout_py311 :: env where
  "env_connect_timeout_py311 =
     env_connect_timeout\<lparr>derives_from := (\<lambda>exc c. exc = asyncio_TimeoutError \<and> c = OSError_class)\<rparr>"

definition env_eof :: env where
  "env_eof = example_env\<lparr>read_response := (\<lambda>p t. Inl (SMTPServerDisconnected ''Connection lost''))\<rparr>"

definition env_greeting_timeout :: env where
  "env_greeting_timeout =
     example_env\<lparr>read_response := (\<lambda>p t. Inl (SMTPTimeoutError ''Timed out waiting for server response''))\<rparr>"

definition env_busy :: env where
  "env_busy = example_env\<lparr>read_response := (\<lambda>p t. Inr unavailable)\<rparr>"

definition connecting :: SMTPConnection where
  "connecting = fresh\<lparr>port := Some 25, loop := Some 0, connect_lock := Some (Lock True)\<rparr>"

lemmas env_defs =
  env_refused_def env_connect_timeout_py311_def env_connect_timeout_def env_eof_def
  env_greeting_timeout_def env_busy_def example_env_def

lemma connecting_loop: "loop connecting = Some 0"
  by (simp add: connecting_def)

lemma connecting_tls:
  "(if use_tls connecting then map_sum id Some (get_tls_context e connecting) else Inr None) = Inr None"
  by (simp add: connecting_def example_defs)

lemma connecting_coro:
  "connect_coro_of connecting None (if use_tls connecting then timeout connecting else None) =
     Inr (create_connection_host ''localhost'' 25 None None None)"
  by (simp add: connecting_def example_defs connect_coro_of_def truthy_defs)

lemma connecting_strings:
  "py_str_opt_str (hostname connecting) = ''localhost''"
  "py_str_opt_int (port connecting) = ''25''"
  "timeout connecting = Some 60"
  by (simp_all add: connecting_def example_defs py_str_opt_str_def py_str_opt_int_def
        py_str_int_def nat_digits.simps DEFAULT_TIMEOUT_def)

lemma attempt_state_connecting:
  "get_running_loop e = 0 \<Longrightarrow> attempt_state e no_kwargs fresh = connecting"
  by (simp add: attempt_state_def update_no_kwargs set_default_port_def)
     (simp add: connecting_def example_defs SMTP_PORT_def truthy_defs)

lemma str_unavailable: "str_response env_busy unavailable = ''421 shutting down''"
  by (simp add: env_defs unavailable_def py_str_int_def nat_digits.simps)

lemma env_facts:
  "wait_for env_refused coro t = Inl (OSError ''[Errno 111] Connection refused'')"
  "wait_for env_connect_timeout coro t = Inl asyncio_TimeoutError"
  "wait_for env_eof coro t = Inr example_transport"
  "wait_for env_greeting_timeout coro t = Inr example_transport"
  "wait_for env_busy coro t = Inr example_transport"
  "read_response env_eof p t = Inl (SMTPServerDisconnected ''Connection lost'')"
  "read_response env_greeting_timeout p t = Inl (SMTPTimeoutError ''Timed out waiting for server response'')"
  "read_response env_busy p t = Inr unavailable"
  "derives_from env_refused exc c = False"
  "derives_from env_connect_timeout exc c = False"
  "derives_from env_eof exc c = False"
  "derives_from env_greeting_timeout exc c = False"
  "code unavailable = 421"
  by (simp_all add: env_defs unavailable_def)

text \<open>
  The mapping at work on a fresh instance connecting to localhost, port 25, where no
  class derives from another: refused, timed out, disconnected at the greeting, timed
  out at the greeting, and greeted with 421.
\<close>

lemma create_connection_error_examples:
  "fst (create_connection env_refused connecting) =
     Inl (SMTPConnectError ''Error connecting to localhost on port 25: [Errno 111] Connection refused''
            (Some (OSError ''[Errno 111] Connection refused'')))"
  "fst (create_connection env_connect_timeout connecting) =
     Inl (SMTPConnectTimeoutError ''Timed out connecting to localhost on port 25''
            (Some asyncio_TimeoutError))"
  "fst (create_connection env_eof connecting) =
     Inl (SMTPConnectError ''Error connecting to localhost on port 25: Connection lost''
            (Some (SMTPServerDisconnected ''Connection lost'')))"
  "fst (create_connection env_greeting_timeout connecting) =
     Inl (SMTPConnectTimeoutError ''Timed out waiting for server ready message''
            (Some (SMTPTimeoutError ''Timed out waiting for server response'')))"
  "fst (create_connection env_busy connecting) = Inl (SMTPConnectError ''421 shutting down'' None)"
  by (simp_all add: fst_create_connection [OF connecting_loop connecting_tls connecting_coro]
        fst_read_greeting connect_error_message_def connect_timeout_message_def
        connecting_strings str_unavailable env_facts isinstance_def)

text \<open>
  Claim C2 does not hold of the code. \<open>_create_connection\<close> tries \<open>except OSError\<close>
  before \<open>except asyncio.TimeoutError\<close>. From Python 3.11 \<open>asyncio.TimeoutError\<close> is
  the builtin \<open>TimeoutError\<close>, a subclass of \<open>OSError\<close>: there the timeout of
  \<open>asyncio.wait_for\<close> is handled by the first clause, and \<open>connect\<close> raises
  \<open>SMTPConnectError\<close> with the empty text of the timeout after the colon, not
  \<open>SMTPConnectTimeoutError\<close>; the second clause is never reached.
\<close>

theorem connect_timeout_raises_connect_error:
  "isinstance env_connect_timeout_py311 asyncio_TimeoutError OSError_class \<and>
   wait_for env_connect_timeout_py311 (create_connection_host ''localhost'' 25 None None None) (Some 60) =
     Inl asyncio_TimeoutError \<and>
   fst (create_connection env_connect_timeout_py311 connecting) =
     Inl (SMTPConnectError ''Error connecting to localhost on port 25: '' (Some asyncio_TimeoutError)) \<and>
   fst (connect env_connect_timeout_py311 no_kwargs fresh) =
     Raised (SMTPConnectError ''Error connecting to localhost on port 25: '' (Some asyncio_TimeoutError))"
proof -
  have i: "isinstance env_connect_timeout_py311 asyncio_TimeoutError OSError_class"
    by (simp add: isinstance_def env_defs)
  have w: "wait_for env_connect_timeout_py311 coro t = Inl asyncio_TimeoutError" for coro t
    by (simp add: env_defs)
  have c: "fst (create_connection env_connect_timeout_py311 connecting) =
     Inl (SMTPConnectError ''Error connecting to localhost on port 25: '' (Some asyncio_TimeoutError))"
    by (simp add: fst_create_connection [OF connecting_loop connecting_tls connecting_coro] w i
          connect_error_message_def connecting_strings)
  have l: "get_running_loop env_connect_timeout_py311 = 0"
    by (simp add: env_defs)
  have "fst (connect env_connect_timeout_py311 no_kwargs fresh) =
     Raised (SMTPConnectError ''Error connecting to localhost on port 25: '' (Some asyncio_TimeoutError))"
    by (simp add: connect_attempt [OF valid_examples(5) fresh_lock_free] fst_attempt
          attempt_state_connecting [OF l] c)
  with i w c show ?thesis by simp
qed

section \<open>Validation\<close>

text \<open>
  The invariants of the data model in the words of claim C6, an option being "set" when
  it is not \<open>None\<close>: \<open>start_tls\<close> together with \<open>use_tls\<close>; a TLS context
  together with a client certificate; a socket together with any of hostname, port or
  socket path; a socket path together with hostname or port; a hostname or local
  hostname containing a carriage return or a line feed.
\<close>

definition violates_invariant :: "SMTPConnection \<Rightarrow> bool" where
  "violates_invariant s =
     ((start_tls_on_connect s = Some True \<and> use_tls s) \<or>
      (tls_context s \<noteq> None \<and> client_cert s \<noteq> None) \<or>
      (sock s \<noteq> None \<and> (hostname s \<noteq> None \<or> port s \<noteq> None \<or> socket_path s \<noteq> None)) \<or>
      (socket_path s \<noteq> None \<and> (hostname s \<noteq> None \<or> port s \<noteq> None)) \<or>
      (case hostname s of None \<Rightarrow> False | Some x \<Rightarrow> contains_newline x) \<or>
      (case local_hostname s of None \<Rightarrow> False | Some x \<Rightarrow> contains_newline x))"

definition args_empty_hostname_socket :: init_args where
  "args_empty_hostname_socket = init_defaults\<lparr>i_hostname := Some [], i_sock := Some (Socket 3)\<rparr>"

text \<open>
  Claim C6, as stated, fails: constructing an instance with a socket and the empty
  string as hostname violates the invariant (a socket together with a hostname) and
  raises nothing, because the code asks whether hostname, port and socket path are
  true values, not whether they are set.
\<close>

theorem validation_exactly_invariant_counterexample:
  "violates_invariant (init_fields args_empty_hostname_socket) \<and>
   validate_config (init_fields args_empty_hostname_socket) = Inr () \<and>
   init args_empty_hostname_socket = Inr (init_fields args_empty_hostname_socket)"
  by (simp add: init_def Let_def)
     (simp add: violates_invariant_def validate_config_def args_empty_hostname_socket_def
        init_fields_def init_defaults_def truthy_defs)

text \<open>
  Claim C6, amended. \<open>_validate_config\<close> raises, and what it raises is a
  \<open>ValueError\<close>, exactly when: \<open>start_tls\<close> and \<open>use_tls\<close> are both true; or a TLS
  context and a client certificate are both set; or a socket is set together with a
  non-empty hostname, a non-zero port or a non-empty socket path; or a socket path is
  set together with a non-empty hostname or a non-zero port; or the hostname or the
  local hostname contains a carriage return or a line feed. \<open>__init__\<close> raises it
  from the stored arguments and returns no instance; \<open>connect\<close> raises it from the
  merged configuration whatever the collaborators would do, leaving the instance with
  the merged settings and nothing else changed.
\<close>

theorem validate_config_raises_exactly:
  "(\<exists>m. validate_config s = Inl (ValueError m)) =
     ((start_tls_on_connect s = Some True \<and> use_tls s) \<or>
      (tls_context s \<noteq> None \<and> client_cert s \<noteq> None) \<or>
      (sock s \<noteq> None \<and>
         (truthy_str (hostname s) \<or> truthy_int (port s) \<or> truthy_socket_path (socket_path s))) \<or>
      (socket_path s \<noteq> None \<and> (truthy_str (hostname s) \<or> truthy_int (port s))) \<or>
      (case hostname s of None \<Rightarrow> False | Some x \<Rightarrow> contains_newline x) \<or>
      (case local_hostname s of None \<Rightarrow> False | Some x \<Rightarrow> contains_newline x)) \<and>
   (validate_config s = Inr () \<or> (\<exists>m. validate_config s = Inl (ValueError m))) \<and>
   init a = (case validate_config (init_fields a) of
               Inl exc \<Rightarrow> Inl exc | Inr u \<Rightarrow> Inr (init_fields a)) \<and>
   (case validate_config (update_settings_from_kwargs kw s) of
      Inl exc \<Rightarrow> connect e kw s = (Raised exc, update_settings_from_kwargs kw s)
    | Inr u \<Rightarrow> True)"
proof -
  have 1: "(\<exists>m. validate_config s = Inl (ValueError m)) =
     ((start_tls_on_connect s = Some True \<and> use_tls s) \<or>
      (tls_context s \<noteq> None \<and> client_cert s \<noteq> None) \<or>
      (sock s \<noteq> None \<and>
         (truthy_str (hostname s) \<or> truthy_int (port s) \<or> truthy_socket_path (socket_path s))) \<or>
      (socket_path s \<noteq> None \<and> (truthy_str (hostname s) \<or> truthy_int (port s))) \<or>
      (case hostname s of None \<Rightarrow> False | Some x \<Rightarrow> contains_newline x) \<or>
      (case local_hostname s of None \<Rightarrow> False | Some x \<Rightarrow> contains_newline x))"
    unfolding validate_config_def truthy_bool_Some_True by auto
  have 2: "validate_config s = Inr () \<or> (\<exists>m. validate_config s = Inl (ValueError m))"
    unfolding validate_config_def by simp
  have 3: "init a = (case validate_config (init_fields a) of
               Inl exc \<Rightarrow> Inl exc | Inr u \<Rightarrow> Inr (init_fields a))"
    by (simp add: init_def Let_def)
  have 4: "case validate_config (update_settings_from_kwargs kw s) of
      Inl exc \<Rightarrow> connect e kw s = (Raised exc, update_settings_from_kwargs kw s)
    | Inr u \<Rightarrow> True"
    by (simp add: connect_invalid split: sum.split)
  from 1 2 3 4 show ?thesis by (intro conjI)
qed

definition args_socket_only :: init_args where
  "args_socket_only = init_defaults\<lparr>i_sock := Some (Socket 3)\<rparr>"

theorem validate_config_raises_exactly_witness:
  "validate_config (init_fields args_socket_only) =
     Inl (ValueError ''The socket option is not compatible with hostname, port or socket_path'') \<and>
   sock (init_fields args_socket_only) \<noteq> None \<and>
   truthy_str (hostname (init_fields args_socket_only)) \<and>
   init args_socket_only =
     Inl (ValueError ''The socket option is not compatible with hostname, port or socket_path'') \<and>
   connect example_env kw_both_tls connected =
     (Raised (ValueError ''The start_tls and use_tls options are not compatible.''),
      update_settings_from_kwargs kw_both_tls connected) \<and>
   validate_config fresh = Inr () \<and>
   \<not> (truthy_bool (start_tls_on_connect fresh) \<and> use_tls fresh) \<and>
   sock fresh = None \<and> socket_path fresh = None \<and> tls_context fresh = None"
proof -
  have v: "validate_config (init_fields args_socket_only) =
     Inl (ValueError ''The socket option is not compatible with hostname, port or socket_path'')"
    by (simp add: validate_config_def args_socket_only_def init_fields_def init_defaults_def truthy_defs)
  have w: "validate_config (update_settings_from_kwargs kw_both_tls connected) =
     Inl (ValueError ''The start_tls and use_tls options are not compatible.'')"
    by (simp add: update_settings_from_kwargs_def kw_both_tls_def no_kwargs_def Let_def
          validate_config_def truthy_defs)
  note t = validate_config_raises_exactly
    [where s = "init_fields args_socket_only" and a = args_socket_only and e = example_env
       and kw = kw_both_tls]
  note u = validate_config_raises_exactly
    [where s = connected and a = args_socket_only and e = example_env and kw = kw_both_tls]
  have i: "init args_socket_only =
     Inl (ValueError ''The socket option is not compatible with hostname, port or socket_path'')"
    using t [THEN conjunct2, THEN conjunct2, THEN conjunct1] by (simp add: v)
  have c: "connect example_env kw_both_tls connected =
     (Raised (ValueError ''The start_tls and use_tls options are not compatible.''),
      update_settings_from_kwargs kw_both_tls connected)"
    using u [THEN conjunct2, THEN conjunct2, THEN conjunct2] by (simp add: w)
  have f: "sock (init_fields args_socket_only) \<noteq> None \<and>
           truthy_str (hostname (init_fields args_socket_only))"
    by (simp add: args_socket_only_def init_fields_def init_defaults_def truthy_defs)
  have g: "\<not> (truthy_bool (start_tls_on_connect fresh) \<and> use_tls fresh) \<and>
   sock fresh = None \<and> socket_path fresh = None \<and> tls_context fresh = None"
    by (simp add: example_defs truthy_defs)
  from v i c f g validate_fresh show ?thesis by simp
qed

section \<open>The settings merge\<close>

definition kw_legacy_source_address :: connect_kwargs where
  "kw_legacy_source_address = no_kwargs\<lparr>kw_source_address := Given (Some (AddrStr ''client.example''))\<rparr>"

text \<open>
  Claim C9, as stated, fails: \<open>connect(source_address="client.example")\<close> names only
  \<open>source_address\<close>, yet the merge leaves the stored source address as it was and
  overwrites the stored local hostname, an option that was not provided.
\<close>

theorem settings_merge_exactly_named_counterexample:
  "kw_local_hostname kw_legacy_source_address = Default \<and>
   kw_source_address kw_legacy_source_address = Given (Some (AddrStr ''client.example'')) \<and>
   local_hostname fresh = None \<and>
   local_hostname (update_settings_from_kwargs kw_legacy_source_address fresh) = Some ''client.example'' \<and>
   source_address (update_settings_from_kwargs kw_legacy_source_address fresh) = None"
  by (simp add: update_settings_from_kwargs_def kw_legacy_source_address_def no_kwargs_def
        fresh_def init_fields_def init_defaults_def Let_def)

lemma settings_merge_fields:
  "hostname (update_settings_from_kwargs kw s) =
     (case kw_hostname kw of Default \<Rightarrow> hostname s | Given v \<Rightarrow> v)"
  "port (update_settings_from_kwargs kw s) =
     (case kw_port kw of Default \<Rightarrow> port s | Given v \<Rightarrow> v)"
  "login_username (update_settings_from_kwargs kw s) =
     (case kw_username kw of Default \<Rightarrow> login_username s | Given v \<Rightarrow> v)"
  "login_password (update_settings_from_kwargs kw s) =
     (case kw_password kw of Default \<Rightarrow> login_password s | Given v \<Rightarrow> v)"
  "timeout (update_settings_from_kwargs kw s) =
     (case kw_timeout kw of Default \<Rightarrow> timeout s | Given v \<Rightarrow> v)"
  "use_tls (update_settings_from_kwargs kw s) =
     (case kw_use_tls kw of None \<Rightarrow> use_tls s | Some v \<Rightarrow> v)"
  "start_tls_on_connect (update_settings_from_kwargs kw s) =
     (case kw_start_tls kw of Default \<Rightarrow> start_tls_on_connect s | Given v \<Rightarrow> v)"
  "validate_certs (update_settings_from_kwargs kw s) =
     (case kw_validate_certs kw of None \<Rightarrow> validate_certs s | Some v \<Rightarrow> v)"
  "client_cert (update_settings_from_kwargs kw s) =
     (case kw_client_cert kw of Default \<Rightarrow> client_cert s | Given v \<Rightarrow> v)"
  "client_key (update_settings_from_kwargs kw s) =
     (case kw_client_key kw of Default \<Rightarrow> client_key s | Given v \<Rightarrow> v)"
  "tls_context (update_settings_from_kwargs kw s) =
     (case kw_tls_context kw of Default \<Rightarrow> tls_context s | Given v \<Rightarrow> v)"
  "cert_bundle (update_settings_from_kwargs kw s) =
     (case kw_cert_bundle kw of Default \<Rightarrow> cert_bundle s | Given v \<Rightarrow> v)"
  "socket_path (update_settings_from_kwargs kw s) =
     (case kw_socket_path kw of Default \<Rightarrow> socket_path s | Given v \<Rightarrow> v)"
  "sock (update_settings_from_kwargs kw s) =
     (case kw_sock kw of Default \<Rightarrow> sock s | Given v \<Rightarrow> v)"
  "local_hostname (update_settings_from_kwargs kw s) =
     (case kw_source_address kw of
        Given (Some (AddrStr x)) \<Rightarrow> Some x
      | _ \<Rightarrow> (case kw_local_hostname kw of Default \<Rightarrow> local_hostname s | Given v \<Rightarrow> v))"
  "source_address (update_settings_from_kwargs kw s) =
     (case kw_source_address kw of
        Default \<Rightarrow> source_address s
      | Given (Some (AddrStr x)) \<Rightarrow> source_address s
      | Given v \<Rightarrow> v)"
  "protocol (update_settings_from_kwargs kw s) = protocol s"
  "transport (update_settings_from_kwargs kw s) = transport s"
  "loop (update_settings_from_kwargs kw s) = loop s"
  "connect_lock (update_settings_from_kwargs kw s) = connect_lock s"
  "closed_transports (update_settings_from_kwargs kw s) = closed_transports s"
  by (simp_all add: update_settings_from_kwargs_def assignment_as_update source_address_as_update Let_def
        split: arg.split option.split source_address.split)

text \<open>
  Claim C9, amended. After the merge every configuration field holds the value passed
  for it, or its stored value when none was passed (the sentinel \<open>_default\<close>; for
  \<open>use_tls\<close> and \<open>validate_certs\<close>, \<open>None\<close>), with one exception: a
  \<open>source_address\<close> passed as a string is stored as the local hostname (whatever was
  passed as \<open>local_hostname\<close>) and leaves the stored source address unchanged.
  Protocol, transport, loop and lock are not touched, and a later merge with no
  arguments keeps every merged value.
\<close>

theorem settings_merge_frame:
  "hostname (update_settings_from_kwargs kw s) =
     (case kw_hostname kw of Default \<Rightarrow> hostname s | Given v \<Rightarrow> v) \<and>
   port (update_settings_from_kwargs kw s) =
     (case kw_port kw of Default \<Rightarrow> port s | Given v \<Rightarrow> v) \<and>
   login_username (update_settings_from_kwargs kw s) =
     (case kw_username kw of Default \<Rightarrow> login_username s | Given v \<Rightarrow> v) \<and>
   login_password (update_settings_from_kwargs kw s) =
     (case kw_password kw of Default \<Rightarrow> login_password s | Given v \<Rightarrow> v) \<and>
   timeout (update_settings_from_kwargs kw s) =
     (case kw_timeout kw of Default \<Rightarrow> timeout s | Given v \<Rightarrow> v) \<and>
   use_tls (update_settings_from_kwargs kw s) =
     (case kw_use_tls kw of None \<Rightarrow> use_tls s | Some v \<Rightarrow> v) \<and>
   start_tls_on_connect (update_settings_from_kwargs kw s) =
     (case kw_start_tls kw of Default \<Rightarrow> start_tls_on_connect s | Given v \<Rightarrow> v) \<and>
   validate_certs (update_settings_from_kwargs kw s) =
     (case kw_validate_certs kw of None \<Rightarrow> validate_certs s | Some v \<Rightarrow> v) \<and>
   client_cert (update_settings_from_kwargs kw s) =
     (case kw_client_cert kw of Default \<Rightarrow> client_cert s | Given v \<Rightarrow> v) \<and>
   client_key (update_settings_from_kwargs kw s) =
     (case kw_client_key kw of Default \<Rightarrow> client_key s | Given v \<Rightarrow> v) \<and>
   tls_context (update_settings_from_kwargs kw s) =
     (case kw_tls_context kw of Default \<Rightarrow> tls_context s | Given v \<Rightarrow> v) \<and>
   cert_bundle (update_settings_from_kwargs kw s) =
     (case kw_cert_bundle kw of Default \<Rightarrow> cert_bundle s | Given v \<Rightarrow> v) \<and>
   socket_path (update_settings_from_kwargs kw s) =
     (case kw_socket_path kw of Default \<Rightarrow> socket_path s | Given v \<Rightarrow> v) \<and>
   sock (update_settings_from_kwargs kw s) =
     (case kw_sock kw of Default \<Rightarrow> sock s | Given v \<Rightarrow> v) \<and>
   local_hostname (update_settings_from_kwargs kw s) =
     (case kw_source_address kw of
        Given (Some (AddrStr x)) \<Rightarrow> Some x
      | _ \<Rightarrow> (case kw_local_hostname kw of Default \<Rightarrow> local_hostname s | Given v \<Rightarrow> v)) \<and>
   source_address (update_settings_from_kwargs kw s) =
     (case kw_source_address kw of
        Default \<Rightarrow> source_address s
      | Given (Some (AddrStr x)) \<Rightarrow> source_address s
      | Given v \<Rightarrow> v) \<and>
   protocol (update_settings_from_kwargs kw s) = protocol s \<and>
   transport (update_settings_from_kwargs kw s) = transport s \<and>
   loop (update_settings_from_kwargs kw s) = loop s \<and>
   connect_lock (update_settings_from_kwargs kw s) = connect_lock s \<and>
   closed_transports (update_settings_from_kwargs kw s) = closed_transports s \<and>
   update_settings_from_kwargs no_kwargs (update_settings_from_kwargs kw s) =
     update_settings_from_kwargs kw s"
  by (simp only: settings_merge_fields update_no_kwargs simp_thms)

definition kw_some :: connect_kwargs where
  "kw_some = no_kwargs\<lparr>kw_hostname := Given (Some ''mail.example''), kw_port := Given None,
                        kw_timeout := Given (Some 5), kw_validate_certs := Some False,
                        kw_source_address := Given (Some (AddrTuple ''10.0.0.1'' 0))\<rparr>"

theorem settings_merge_frame_witness:
  "hostname (update_settings_from_kwargs kw_some connected) = Some ''mail.example'' \<and>
   port (update_settings_from_kwargs kw_some connected) = None \<and>
   port connected = Some 25 \<and>
   timeout (update_settings_from_kwargs kw_some connected) = Some 5 \<and>
   validate_certs (update_settings_from_kwargs kw_some connected) = False \<and>
   source_address (update_settings_from_kwargs kw_some connected) = Some (AddrTuple ''10.0.0.1'' 0) \<and>
   use_tls (update_settings_from_kwargs kw_some connected) = use_tls connected \<and>
   local_hostname (update_settings_from_kwargs kw_some connected) = local_hostname connected \<and>
   sock (update_settings_from_kwargs kw_some connected) = sock connected \<and>
   protocol (update_settings_from_kwargs kw_some connected) = protocol connected \<and>
   connect_lock (update_settings_from_kwargs kw_some connected) = Some (Lock True) \<and>
   hostname (update_settings_from_kwargs no_kwargs (update_settings_from_kwargs kw_some connected)) =
     Some ''mail.example''"
  using settings_merge_frame [of kw_some connected]
  by (simp add: kw_some_def no_kwargs_def) (simp add: connected_def)

section \<open>The default hostname against a socket or a socket path\<close>

lemma init_fields_targets:
  "hostname (init_fields a) = i_hostname a"
  "port (init_fields a) = i_port a"
  "sock (init_fields a) = i_sock a"
  "socket_path (init_fields a) = i_socket_path a"
  "use_tls (init_fields a) = i_use_tls a"
  "start_tls_on_connect (init_fields a) = i_start_tls a"
  "tls_context (init_fields a) = i_tls_context a"
  "client_cert (init_fields a) = i_client_cert a"
  by (simp_all add: init_fields_def Let_def split: option.split source_address.split)

lemma validate_config_target_conflict:
  assumes "truthy_str (hostname s)" and "sock s \<noteq> None \<or> socket_path s \<noteq> None"
  shows "validate_config s =
     Inl (ValueError
       (if truthy_bool (start_tls_on_connect s) \<and> use_tls s then
          ''The start_tls and use_tls options are not compatible.''
        else if tls_context s \<noteq> None \<and> client_cert s \<noteq> None then
          ''Either a TLS context or a certificate/key must be provided''
        else if sock s \<noteq> None then
          ''The socket option is not compatible with hostname, port or socket_path''
        else ''The socket_path option is not compatible with hostname/port''))"
  using assms unfolding validate_config_def by auto

lemma truthy_localhost: "truthy_str (i_hostname init_defaults)"
  by (simp add: init_defaults_def truthy_str_def)

text \<open>
  Claim C10. The signature of \<open>__init__\<close> gives hostname the value "localhost". So
  constructing an instance with a socket or a socket path and no hostname argument
  raises a \<open>ValueError\<close>: that of the socket (or socket path) against hostname and
  port, unless one of the two earlier checks raises its own. The same holds for
  \<open>connect\<close> with a socket or a socket path and no hostname argument on an instance
  that stores the default hostname; it raises before anything is opened.
\<close>

theorem default_hostname_conflicts_with_socket:
  "(i_hostname a = i_hostname init_defaults \<and> (i_sock a \<noteq> None \<or> i_socket_path a \<noteq> None) \<longrightarrow>
      init a =
        Inl (ValueError
          (if truthy_bool (i_start_tls a) \<and> i_use_tls a then
             ''The start_tls and use_tls options are not compatible.''
           else if i_tls_context a \<noteq> None \<and> i_client_cert a \<noteq> None then
             ''Either a TLS context or a certificate/key must be provided''
           else if i_sock a \<noteq> None then
             ''The socket option is not compatible with hostname, port or socket_path''
           else ''The socket_path option is not compatible with hostname/port''))) \<and>
   (hostname s = i_hostname init_defaults \<and> kw_hostname kw = Default \<and>
    ((\<exists>k. kw_sock kw = Given (Some k)) \<or> (\<exists>p. kw_socket_path kw = Given (Some p))) \<longrightarrow>
      (\<exists>m. connect e kw s = (Raised (ValueError m), update_settings_from_kwargs kw s)))"
proof (intro conjI impI)
  assume h: "i_hostname a = i_hostname init_defaults \<and> (i_sock a \<noteq> None \<or> i_socket_path a \<noteq> None)"
  have t: "truthy_str (hostname (init_fields a))"
    using h truthy_localhost by (simp add: init_fields_targets)
  have k: "sock (init_fields a) \<noteq> None \<or> socket_path (init_fields a) \<noteq> None"
    using h by (simp add: init_fields_targets)
  show "init a =
        Inl (ValueError
          (if truthy_bool (i_start_tls a) \<and> i_use_tls a then
             ''The start_tls and use_tls options are not compatible.''
           else if i_tls_context a \<noteq> None \<and> i_client_cert a \<noteq> None then
             ''Either a TLS context or a certificate/key must be provided''
           else if i_sock a \<noteq> None then
             ''The socket option is not compatible with hostname, port or socket_path''
           else ''The socket_path option is not compatible with hostname/port''))"
    unfolding init_def Let_def validate_config_target_conflict [OF t k] init_fields_targets
    by (simp only: sum.case)
next
  assume h: "hostname s = i_hostname init_defaults \<and> kw_hostname kw = Default \<and>
    ((\<exists>k. kw_sock kw = Given (Some k)) \<or> (\<exists>p. kw_socket_path kw = Given (Some p)))"
  let ?m = "update_settings_from_kwargs kw s"
  have t: "truthy_str (hostname ?m)"
    using h truthy_localhost by (simp add: settings_merge_fields)
  have k: "sock ?m \<noteq> None \<or> socket_path ?m \<noteq> None"
    using h by (auto simp: settings_merge_fields)
  show "\<exists>m. connect e kw s = (Raised (ValueError m), ?m)"
    by (simp add: connect_invalid [OF validate_config_target_conflict [OF t k]])
qed

definition args_socket_path_only :: init_args where
  "args_socket_path_only = init_defaults\<lparr>i_socket_path := Some (PathStr ''/var/run/smtp.sock'')\<rparr>"

definition kw_socket_only :: connect_kwargs where
  "kw_socket_only = no_kwargs\<lparr>kw_sock := Given (Some (Socket 3))\<rparr>"

theorem default_hostname_conflicts_with_socket_witness:
  "i_hostname args_socket_only = i_hostname init_defaults \<and> i_sock args_socket_only \<noteq> None \<and>
   init args_socket_only =
     Inl (ValueError ''The socket option is not compatible with hostname, port or socket_path'') \<and>
   i_hostname args_socket_path_only = i_hostname init_defaults \<and>
   i_socket_path args_socket_path_only \<noteq> None \<and>
   init args_socket_path_only =
     Inl (ValueError ''The socket_path option is not compatible with hostname/port'') \<and>
   init init_defaults = Inr fresh \<and> kw_hostname kw_socket_only = Default \<and>
   connect example_env kw_socket_only fresh =
     (Raised (ValueError ''The socket option is not compatible with hostname, port or socket_path''),
      fresh\<lparr>sock := Some (Socket 3)\<rparr>) \<and>
   validate_config (update_settings_from_kwargs kw_external_socket fresh) = Inr ()"
proof -
  have a: "i_hostname args_socket_only = i_hostname init_defaults \<and> (i_sock args_socket_only \<noteq> None \<or> i_socket_path args_socket_only \<noteq> None)"
    by (simp add: args_socket_only_def)
  have b: "i_hostname args_socket_path_only = i_hostname init_defaults \<and>
           (i_sock args_socket_path_only \<noteq> None \<or> i_socket_path args_socket_path_only \<noteq> None)"
    by (simp add: args_socket_path_only_def)
  have c: "hostname fresh = i_hostname init_defaults \<and> kw_hostname kw_socket_only = Default \<and>
    ((\<exists>k. kw_sock kw_socket_only = Given (Some k)) \<or> (\<exists>p. kw_socket_path kw_socket_only = Given (Some p)))"
    by (simp add: kw_socket_only_def no_kwargs_def fresh_def init_fields_targets)
  note t = default_hostname_conflicts_with_socket
  have 1: "init args_socket_only =
     Inl (ValueError ''The socket option is not compatible with hostname, port or socket_path'')"
    using t [where a = args_socket_only, THEN conjunct1, rule_format, OF a]
    by (simp add: args_socket_only_def init_defaults_def truthy_defs)
  have 2: "init args_socket_path_only =
     Inl (ValueError ''The socket_path option is not compatible with hostname/port'')"
    using t [where a = args_socket_path_only, THEN conjunct1, rule_format, OF b]
    by (simp add: args_socket_path_only_def init_defaults_def truthy_defs)
  have m: "update_settings_from_kwargs kw_socket_only fresh = fresh\<lparr>sock := Some (Socket 3)\<rparr>"
    by (simp add: update_settings_from_kwargs_def kw_socket_only_def no_kwargs_def Let_def)
  have v: "validate_config (fresh\<lparr>sock := Some (Socket 3)\<rparr>) =
     Inl (ValueError ''The socket option is not compatible with hostname, port or socket_path'')"
    by (simp add: validate_config_def example_defs truthy_defs)
  have 3: "connect example_env kw_socket_only fresh =
     (Raised (ValueError ''The socket option is not compatible with hostname, port or socket_path''),
      fresh\<lparr>sock := Some (Socket 3)\<rparr>)"
    using t [where s = fresh and kw = kw_socket_only and e = example_env, THEN conjunct2, rule_format, OF c]
    by (simp add: connect_def m v Let_def)
  from a b c 1 2 3 init_defaults_fresh valid_examples(3) show ?thesis
    by (simp add: args_socket_only_def args_socket_path_only_def)
qed

end
